theory Spec2Isabelle
  imports Main "HOL-Library.Word" "HOL-Library.Monad_Syntax"
begin

unbundle bit_operations_syntax

section \<open>Events and tags\<close>

text \<open>
  The event kinds the master's \<open>HandleEvents\<close> switch distinguishes. Every other kind of
  the enumeration (declared in a header outside the files verified here) falls into the
  \<open>default\<close> branch and is represented by \<open>kOtherEvent\<close>.
\<close>

datatype EventType =
    kPacketRX | kFFT | kBeam | kDemul | kIFFT | kPrecode | kPacketTX
  | kDecode | kEncode | kPacketFromMac | kPacketToMac | kSNRReport
  | kRANUpdate | kBroadcast | kOtherEvent

text \<open>
  A tag carries a frame, a symbol and one inner id (antenna, subcarrier base, code block or
  user, a union in the source). For a \<open>kPacketRX\<close> event the tag points to a packet; the model
  keeps the packet's header fields in the same record. For \<open>kPacketFromMac\<close> the frame
  field holds \<open>pkt->Frame()\<close> of the MAC packet the tag addresses.
\<close>

record gen_tag_t =
  tag_frame_id :: nat
  tag_symbol_id :: nat
  tag_inner_id :: nat

text \<open>
  \<open>EventData\<close>: \<open>tags_[0]\<close> always exists (a fixed array), \<open>num_tags_\<close> counts the
  valid entries. Events taken from the queues carry at least one tag.
\<close>

record EventData =
  event_type :: EventType
  tag0 :: gen_tag_t
  more_tags :: "gen_tag_t list"

definition ev_tags :: "EventData \<Rightarrow> gen_tag_t list" where
  "ev_tags ev = tag0 ev # more_tags ev"

text \<open>An entry of a worker task queue: the event kind, the parity bucket and the tags.\<close>

type_synonym task = "EventType \<times> nat \<times> gen_tag_t list"

definition task_type :: "task \<Rightarrow> EventType" where
  "task_type t = fst t"

definition task_qid :: "task \<Rightarrow> nat" where
  "task_qid t = fst (snd t)"

definition task_tags :: "task \<Rightarrow> gen_tag_t list" where
  "task_tags t = snd (snd t)"

datatype SymbolType = kPilot | kUL | kDL | kCalDL | kCalUL | kOtherSymbol

datatype Direction = kUplink | kDownlink

section \<open>Configuration\<close>

text \<open>
  The configuration object and the compile-time constants (\<open>kFrameWnd\<close>,
  \<open>kScheduleQueues\<close>, \<open>kUplinkHardDemod\<close>, \<open>kEnableMac\<close>) are declared in headers
  outside the files verified here; they are parameters of the model. Each field stands for the getter of the
  same name.
\<close>

record Config =
  kFrameWnd :: nat
  kScheduleQueues :: nat
  kUplinkHardDemod :: bool
  kEnableMac :: bool
  RecorderEnabled :: bool
  BsAntNum :: nat
  BfAntNum :: nat
  FftBlockSize :: nat
  EncodeBlockSize :: nat
  DemulBlockSize :: nat
  DemulEventsPerSymbol :: nat
  BeamBlockSize :: nat
  BeamEventsPerSymbol :: nat
  SpatialStreamsNum :: nat
  UeAntNum :: nat
  NumBlocksInSymbol :: "Direction \<Rightarrow> nat"
  BigstationMode :: bool
  FramesToTest :: nat
  SocketThreadNum :: nat
  AntNumToWorkerId :: "nat \<Rightarrow> nat"
  NumPilotSyms :: nat
  NumULSyms :: nat
  NumDLSyms :: nat
  NumDlControlSyms :: nat
  NumDlDataSyms :: nat
  NumULCalSyms :: nat
  NumDLCalSyms :: nat
  ClientDlPilotSymbols :: nat
  IsRecCalEnabled :: bool
  GetSymbolType :: "nat \<Rightarrow> SymbolType"
  IsPilot :: "nat \<Rightarrow> nat \<Rightarrow> bool"
  IsCalDlPilot :: "nat \<Rightarrow> nat \<Rightarrow> bool"
  IsCalUlPilot :: "nat \<Rightarrow> nat \<Rightarrow> bool"
  GetULSymbol :: "nat \<Rightarrow> nat"
  GetDLSymbol :: "nat \<Rightarrow> nat"
  GetDLControlSymbol :: "nat \<Rightarrow> nat"
  GetULSymbolIdx :: "nat \<Rightarrow> nat"
  GetDLSymbolIdx :: "nat \<Rightarrow> nat"

definition SIZE_MAX :: nat where
  "SIZE_MAX = 2 ^ 64 - 1"

text \<open>Subtraction on \<open>size_t\<close> wraps around.\<close>

definition size_sub :: "nat \<Rightarrow> nat \<Rightarrow> nat" where
  "size_sub a b = (a + 2 ^ 64 - b mod 2 ^ 64) mod 2 ^ 64"

section \<open>Counters\<close>

text \<open>
  Modelled from the spec: the class \<open>FrameCounters\<close> is declared in a header outside the files
  verified here.
  A counter is a grid indexed by (frame slot, symbol) with \<open>tasks_done\<close> and
  \<open>symbols_done\<close> and the configured limits. \<open>CompleteTask\<close> increments
  \<open>tasks_done\<close> and returns true when it equals the task limit; \<open>CompleteSymbol\<close>
  increments \<open>symbols_done\<close> and returns true when it equals the symbol limit;
  \<open>Reset\<close> zeroes the column of the frame's slot. The frame slot is the frame id modulo
  the window depth.
\<close>

record FrameCounters =
  task_count :: "nat \<Rightarrow> nat \<Rightarrow> nat"
  symbol_count :: "nat \<Rightarrow> nat"
  max_symbol_count :: nat
  max_task_count :: nat

definition Init :: "nat \<Rightarrow> nat \<Rightarrow> FrameCounters" where
  "Init max_symbols max_tasks =
     \<lparr> task_count = (\<lambda>_ _. 0), symbol_count = (\<lambda>_. 0),
       max_symbol_count = max_symbols, max_task_count = max_tasks \<rparr>"

definition CompleteTask :: "nat \<Rightarrow> FrameCounters \<Rightarrow> nat \<Rightarrow> nat \<Rightarrow> FrameCounters \<times> bool" where
  "CompleteTask W c frame symbol =
     (let slot = frame mod W;
          n = task_count c slot symbol + 1
      in (c\<lparr>task_count := (task_count c)(slot := (task_count c slot)(symbol := n))\<rparr>,
          n = max_task_count c))"

definition CompleteSymbol :: "nat \<Rightarrow> FrameCounters \<Rightarrow> nat \<Rightarrow> FrameCounters \<times> bool" where
  "CompleteSymbol W c frame =
     (let slot = frame mod W;
          n = symbol_count c slot + 1
      in (c\<lparr>symbol_count := (symbol_count c)(slot := n)\<rparr>, n = max_symbol_count c))"

text \<open>
  Modelled from the spec: the one-level use \<open>CompleteTask(frame_id)\<close> of the beam and
  calibration counters counts completions per frame against the single limit given to
  \<open>Init\<close>.
\<close>

definition CompleteTask1 :: "nat \<Rightarrow> FrameCounters \<Rightarrow> nat \<Rightarrow> FrameCounters \<times> bool" where
  "CompleteTask1 W c frame = CompleteSymbol W c frame"

definition Reset :: "nat \<Rightarrow> FrameCounters \<Rightarrow> nat \<Rightarrow> FrameCounters" where
  "Reset W c frame =
     (let slot = frame mod W
      in c\<lparr>task_count := (task_count c)(slot := (\<lambda>_. 0)),
           symbol_count := (symbol_count c)(slot := 0)\<rparr>)"

definition IsLastSymbol :: "nat \<Rightarrow> FrameCounters \<Rightarrow> nat \<Rightarrow> bool" where
  "IsLastSymbol W c frame = (symbol_count c (frame mod W) = max_symbol_count c)"

definition GetSymbolCount :: "nat \<Rightarrow> FrameCounters \<Rightarrow> nat \<Rightarrow> nat" where
  "GetSymbolCount W c frame = symbol_count c (frame mod W)"

section \<open>The master's state\<close>

text \<open>
  \<open>ScheduleProcessingFlags\<close>: the flag values are declared in the class header, outside
  the files verified here; the constructor's call
  \<open>CheckIncrementScheduleFrame(0, kProcessingComplete)\<close> and the additions of the two
  direction flags fix them as below.
\<close>

definition kNone :: "8 word" where "kNone = 0"
definition kUplinkComplete :: "8 word" where "kUplinkComplete = 1"
definition kDownlinkComplete :: "8 word" where "kDownlinkComplete = 2"
definition kProcessingComplete :: "8 word" where "kProcessingComplete = 3"

text \<open>
  The two log lines of the deferral mechanism (\<open>kDebugDeferral\<close> is \<open>true\<close> in the
  source): a frame whose encoding is deferred, and a deferred frame that is scheduled, with
  the processing cursor at that moment.
\<close>

datatype log_line = Deferring nat | SchedulingDeferred nat nat

record Agora =
  cur_sche_frame_id :: nat
  cur_proc_frame_id :: nat
  schedule_process_flags :: "8 word"
  running :: bool
  encode_deferral :: "nat list"
  fft_queue_arr :: "nat \<Rightarrow> gen_tag_t list"
  fft_created_count :: nat
  num_pkts :: "nat \<Rightarrow> nat"
  num_pilot_pkts :: "nat \<Rightarrow> nat"
  num_reciprocity_pkts :: "nat \<Rightarrow> nat"
  pilot_fft_counters :: FrameCounters
  uplink_fft_counters :: FrameCounters
  rc_counters :: FrameCounters
  beam_counters :: FrameCounters
  demul_counters :: FrameCounters
  decode_counters :: FrameCounters
  tomac_counters :: FrameCounters
  encode_counters :: FrameCounters
  precode_counters :: FrameCounters
  ifft_counters :: FrameCounters
  tx_counters :: FrameCounters
  mac_to_phy_counters :: FrameCounters
  fft_cur_frame_for_symbol :: "nat list"
  encode_cur_frame_for_symbol :: "nat list"
  ifft_cur_frame_for_symbol :: "nat list"
  ifft_next_symbol :: nat
  beam_last_frame :: nat
  rc_last_frame :: nat
  max_equaled_frame :: nat
  task_queue :: "task list"
  tx_queue :: "(nat \<times> gen_tag_t list) list"
  mac_request_queue :: "(EventType \<times> gen_tag_t) list"
  recorded :: "gen_tag_t list"
  log_info :: "log_line list"

text \<open>The per-frame packet counts of \<open>InitializeCounters\<close>.\<close>

definition num_pilot_pkts_per_frame :: "Config \<Rightarrow> nat" where
  "num_pilot_pkts_per_frame cfg = BsAntNum cfg * NumPilotSyms cfg"

definition num_reciprocity_pkts_per_frame :: "Config \<Rightarrow> nat" where
  "num_reciprocity_pkts_per_frame cfg =
     NumULCalSyms cfg * BfAntNum cfg
     + NumDLCalSyms cfg * size_sub (BsAntNum cfg) (BfAntNum cfg)"

definition num_rx_pkts_per_frame :: "Config \<Rightarrow> nat" where
  "num_rx_pkts_per_frame cfg =
     num_pilot_pkts_per_frame cfg + num_reciprocity_pkts_per_frame cfg
     + BsAntNum cfg * NumULSyms cfg"

text \<open>
  \<open>std::vector::at\<close> throws on an index out of range; the exception is not caught, so the
  process ends. Such an end, like \<open>RtAssert\<close> and \<open>std::exit\<close>, is the value \<open>None\<close>.
\<close>

definition vec_at :: "nat list \<Rightarrow> nat \<Rightarrow> nat option" where
  "vec_at xs i = (if i < length xs then Some (xs ! i) else None)"

definition vec_set :: "nat list \<Rightarrow> nat \<Rightarrow> nat \<Rightarrow> nat list option" where
  "vec_set xs i v = (if i < length xs then Some (xs[i := v]) else None)"

section \<open>Scheduling functions\<close>

definition EnqueueEventTaskQueue :: "EventType \<Rightarrow> nat \<Rightarrow> gen_tag_t list \<Rightarrow> Agora \<Rightarrow> Agora" where
  "EnqueueEventTaskQueue ty qid tgs s = s\<lparr>task_queue := task_queue s @ [(ty, qid, tgs)]\<rparr>"

definition enqueue_tasks :: "task list \<Rightarrow> Agora \<Rightarrow> Agora" where
  "enqueue_tasks ts s = s\<lparr>task_queue := task_queue s @ ts\<rparr>"

text \<open>
  The block loop shared by \<open>ScheduleAntennas\<close> and \<open>ScheduleCodeblocks\<close>: the last
  argument counts the iterations still to run, so the iteration with \<open>i = num_blocks - 1\<close>
  is the one with none left after it. \<open>event.num_tags_\<close> and the base tag are carried from one
  iteration to the next, as the source's local variables are.
\<close>

fun block_events :: "EventType \<Rightarrow> nat \<Rightarrow> nat \<Rightarrow> nat \<Rightarrow> gen_tag_t \<Rightarrow> nat \<Rightarrow> task list" where
  "block_events ty qid num_remainder num_tags base_tag 0 = []"
| "block_events ty qid num_remainder num_tags base_tag (Suc k) =
     (let n = (if k = 0 \<and> num_remainder > 0 then num_remainder else num_tags);
          tgs = map (\<lambda>j. base_tag\<lparr>tag_inner_id := tag_inner_id base_tag + j\<rparr>) [0..<n];
          base_tag' = base_tag\<lparr>tag_inner_id := tag_inner_id base_tag + n\<rparr>
      in (ty, qid, tgs) # block_events ty qid num_remainder n base_tag' k)"

definition num_blocks_of :: "nat \<Rightarrow> nat \<Rightarrow> nat" where
  "num_blocks_of n block = (if n mod block > 0 then n div block + 1 else n div block)"

text \<open>
  \<open>ScheduleAntennas\<close>. A block size of zero is a division by zero in the source; the
  model returns \<open>None\<close> there.
\<close>

definition ScheduleAntennas_events :: "Config \<Rightarrow> EventType \<Rightarrow> nat \<Rightarrow> nat \<Rightarrow> task list" where
  "ScheduleAntennas_events cfg ty frame_id symbol_id =
     block_events ty (frame_id AND 1) (BsAntNum cfg mod FftBlockSize cfg) (FftBlockSize cfg)
       \<lparr>tag_frame_id = frame_id, tag_symbol_id = symbol_id, tag_inner_id = 0\<rparr>
       (num_blocks_of (BsAntNum cfg) (FftBlockSize cfg))"

definition ScheduleAntennas :: "Config \<Rightarrow> EventType \<Rightarrow> nat \<Rightarrow> nat \<Rightarrow> Agora \<Rightarrow> Agora option" where
  "ScheduleAntennas cfg ty frame_id symbol_id s =
     (if FftBlockSize cfg = 0 then None
      else Some (enqueue_tasks (ScheduleAntennas_events cfg ty frame_id symbol_id) s))"

definition ScheduleCodeblocks_events :: "Config \<Rightarrow> EventType \<Rightarrow> Direction \<Rightarrow> nat \<Rightarrow> nat \<Rightarrow> task list" where
  "ScheduleCodeblocks_events cfg ty dir frame_id symbol_idx =
     (let num_tasks = SpatialStreamsNum cfg * NumBlocksInSymbol cfg dir
      in block_events ty (frame_id AND 1) (num_tasks mod EncodeBlockSize cfg) (EncodeBlockSize cfg)
           \<lparr>tag_frame_id = frame_id, tag_symbol_id = symbol_idx, tag_inner_id = 0\<rparr>
           (num_blocks_of num_tasks (EncodeBlockSize cfg)))"

definition ScheduleCodeblocks :: "Config \<Rightarrow> EventType \<Rightarrow> Direction \<Rightarrow> nat \<Rightarrow> nat \<Rightarrow> Agora \<Rightarrow> Agora option" where
  "ScheduleCodeblocks cfg ty dir frame_id symbol_idx s =
     (if EncodeBlockSize cfg = 0 then None
      else Some (enqueue_tasks (ScheduleCodeblocks_events cfg ty dir frame_id symbol_idx) s))"

text \<open>\<open>ScheduleSubcarriers\<close>: one single-tag event per subcarrier block.\<close>

fun subcarrier_events :: "EventType \<Rightarrow> nat \<Rightarrow> nat \<Rightarrow> gen_tag_t \<Rightarrow> nat \<Rightarrow> task list" where
  "subcarrier_events ty qid block_size base_tag 0 = []"
| "subcarrier_events ty qid block_size base_tag (Suc k) =
     (ty, qid, [base_tag])
     # subcarrier_events ty qid block_size
         (base_tag\<lparr>tag_inner_id := tag_inner_id base_tag + block_size\<rparr>) k"

definition ScheduleSubcarriers_events :: "Config \<Rightarrow> EventType \<Rightarrow> nat \<Rightarrow> nat \<Rightarrow> task list option" where
  "ScheduleSubcarriers_events cfg ty frame_id symbol_id =
     (if ty = kDemul \<or> ty = kPrecode then
        Some (subcarrier_events ty (frame_id AND 1) (DemulBlockSize cfg)
                \<lparr>tag_frame_id = frame_id, tag_symbol_id = symbol_id, tag_inner_id = 0\<rparr>
                (DemulEventsPerSymbol cfg))
      else if ty = kBeam then
        Some (subcarrier_events ty (frame_id AND 1) (BeamBlockSize cfg)
                \<lparr>tag_frame_id = frame_id, tag_symbol_id = 0, tag_inner_id = 0\<rparr>
                (BeamEventsPerSymbol cfg))
      else None)"

definition ScheduleSubcarriers :: "Config \<Rightarrow> EventType \<Rightarrow> nat \<Rightarrow> nat \<Rightarrow> Agora \<Rightarrow> Agora option" where
  "ScheduleSubcarriers cfg ty frame_id symbol_id s =
     map_option (\<lambda>ts. enqueue_tasks ts s) (ScheduleSubcarriers_events cfg ty frame_id symbol_id)"

definition ScheduleBroadCastSymbols :: "EventType \<Rightarrow> nat \<Rightarrow> Agora \<Rightarrow> Agora" where
  "ScheduleBroadCastSymbols ty frame_id s =
     EnqueueEventTaskQueue ty (frame_id AND 1)
       [\<lparr>tag_frame_id = frame_id, tag_symbol_id = 0, tag_inner_id = 0\<rparr>] s"

text \<open>
  \<open>ScheduleUsers\<close> and \<open>SendSnrReport\<close> put one event per stream (per user antenna) on
  the MAC request queue.
\<close>

definition ScheduleUsers :: "Config \<Rightarrow> nat \<Rightarrow> nat \<Rightarrow> Agora \<Rightarrow> Agora" where
  "ScheduleUsers cfg frame_id symbol_id s =
     s\<lparr>mac_request_queue := mac_request_queue s @
          map (\<lambda>i. (kPacketToMac,
                    \<lparr>tag_frame_id = frame_id, tag_symbol_id = symbol_id, tag_inner_id = i\<rparr>))
              [0..<SpatialStreamsNum cfg]\<rparr>"

definition SendSnrReport :: "Config \<Rightarrow> nat \<Rightarrow> nat \<Rightarrow> Agora \<Rightarrow> Agora" where
  "SendSnrReport cfg frame_id symbol_id s =
     s\<lparr>mac_request_queue := mac_request_queue s @
          map (\<lambda>i. (kSNRReport,
                    \<lparr>tag_frame_id = frame_id, tag_symbol_id = symbol_id, tag_inner_id = i\<rparr>))
              [0..<UeAntNum cfg]\<rparr>"

text \<open>
  \<open>ScheduleAntennasTX\<close>: the events are sorted into one list per streamer thread
  (\<open>worker_events.at(...)\<close> throws on a thread id out of range) and each non-empty list is
  enqueued in bulk, in thread order.
\<close>

definition ScheduleAntennasTX :: "Config \<Rightarrow> nat \<Rightarrow> nat \<Rightarrow> Agora \<Rightarrow> Agora option" where
  "ScheduleAntennasTX cfg frame_id symbol_id s =
     (if \<exists>antenna \<in> set [0..<BsAntNum cfg]. \<not> AntNumToWorkerId cfg antenna < SocketThreadNum cfg
      then None
      else
        let worker_events = map (\<lambda>w. (w,
              map (\<lambda>antenna. \<lparr>tag_frame_id = frame_id, tag_symbol_id = symbol_id,
                              tag_inner_id = antenna\<rparr>)
                  (filter (\<lambda>antenna. AntNumToWorkerId cfg antenna = w) [0..<BsAntNum cfg])))
              [0..<SocketThreadNum cfg]
        in Some (s\<lparr>tx_queue := tx_queue s @ filter (\<lambda>we. snd we \<noteq> []) worker_events\<rparr>))"


section \<open>Loops that may end the process\<close>

fun fold_opt :: "('a \<Rightarrow> 's \<Rightarrow> 's option) \<Rightarrow> 'a list \<Rightarrow> 's \<Rightarrow> 's option" where
  "fold_opt f [] s = Some s"
| "fold_opt f (x # xs) s = (case f x s of None \<Rightarrow> None | Some s' \<Rightarrow> fold_opt f xs s')"

text \<open>
  A loop over the tags of an event whose body may set \<open>finish\<close> and return from the
  handler: the boolean is \<open>finish\<close>, and the loop stops at the first tag that sets it.
\<close>

fun for_tags ::
  "(gen_tag_t \<Rightarrow> Agora \<Rightarrow> (Agora \<times> bool) option) \<Rightarrow> gen_tag_t list \<Rightarrow> Agora \<Rightarrow> (Agora \<times> bool) option"
where
  "for_tags f [] s = Some (s, False)"
| "for_tags f (t # ts) s =
     (case f t s of
        None \<Rightarrow> None
      | Some (s', fin) \<Rightarrow> if fin then Some (s', True) else for_tags f ts s')"

section \<open>Frame window and retirement\<close>

text \<open>
  \<open>ScheduleDownlinkProcessing\<close>. The body of its first loop, over the beamformed pilot
  symbols, is \<open>dl_pilot_symbol\<close>.
\<close>

definition dl_pilot_symbol :: "Config \<Rightarrow> nat \<Rightarrow> nat \<Rightarrow> Agora \<Rightarrow> Agora option" where
  "dl_pilot_symbol cfg frame_id i s =
     (if beam_last_frame s = frame_id
      then ScheduleSubcarriers cfg kPrecode frame_id (GetDLSymbol cfg i) s
      else map_option (\<lambda>v. s\<lparr>encode_cur_frame_for_symbol := v\<rparr>)
             (vec_set (encode_cur_frame_for_symbol s) i frame_id))"

definition dl_data_symbol :: "Config \<Rightarrow> nat \<Rightarrow> nat \<Rightarrow> Agora \<Rightarrow> Agora option" where
  "dl_data_symbol cfg frame_id i s =
     ScheduleCodeblocks cfg kEncode kDownlink frame_id (GetDLSymbol cfg i) s"

definition ScheduleDownlinkProcessing :: "Config \<Rightarrow> nat \<Rightarrow> Agora \<Rightarrow> Agora option" where
  "ScheduleDownlinkProcessing cfg frame_id s =
     Option.bind
       (fold_opt (dl_pilot_symbol cfg frame_id) [0..<ClientDlPilotSymbols cfg]
          (if NumDlControlSyms cfg > 0 then ScheduleBroadCastSymbols kBroadcast frame_id s
           else s))
       (fold_opt (dl_data_symbol cfg frame_id) [ClientDlPilotSymbols cfg..<NumDLSyms cfg])"

text \<open>
  \<open>CheckIncrementScheduleFrame\<close>. The \<open>assert\<close> on the frame id is compiled out of a
  release build (the parameter is marked \<open>unused\<close>); it does not change the state.
\<close>

definition CheckIncrementScheduleFrame :: "Config \<Rightarrow> nat \<Rightarrow> 8 word \<Rightarrow> Agora \<Rightarrow> Agora" where
  "CheckIncrementScheduleFrame cfg frame_id completed s =
     (let s1 = s\<lparr>schedule_process_flags := schedule_process_flags s + completed\<rparr>
      in if schedule_process_flags s1 = kProcessingComplete then
           let s2 = s1\<lparr>cur_sche_frame_id := cur_sche_frame_id s1 + 1,
                       schedule_process_flags := kNone\<rparr>;
               s3 = (if NumULSyms cfg = 0
                     then s2\<lparr>schedule_process_flags := schedule_process_flags s2 + kUplinkComplete\<rparr>
                     else s2)
           in (if NumDLSyms cfg = 0
               then s3\<lparr>schedule_process_flags := schedule_process_flags s3 + kDownlinkComplete\<rparr>
               else s3)
         else s1)"

text \<open>The condition under which \<open>CheckFrameComplete\<close> retires the frame.\<close>

definition frame_complete_cond :: "Config \<Rightarrow> nat \<Rightarrow> Agora \<Rightarrow> bool" where
  "frame_complete_cond cfg frame_id s =
     (IsLastSymbol (kFrameWnd cfg) (ifft_counters s) frame_id
      \<and> IsLastSymbol (kFrameWnd cfg) (tx_counters s) frame_id
      \<and> ((\<not> kEnableMac cfg \<and> IsLastSymbol (kFrameWnd cfg) (decode_counters s) frame_id)
         \<or> (kUplinkHardDemod cfg \<and> IsLastSymbol (kFrameWnd cfg) (demul_counters s) frame_id)
         \<or> (kEnableMac cfg \<and> IsLastSymbol (kFrameWnd cfg) (tomac_counters s) frame_id)))"

text \<open>
  The release loop of \<open>CheckFrameComplete\<close>: at most \<open>kScheduleQueues\<close> iterations (the
  first argument counts those left), each looking at the front of the deferral queue.
\<close>

fun release_deferred :: "Config \<Rightarrow> nat \<Rightarrow> Agora \<Rightarrow> Agora option" where
  "release_deferred cfg 0 s = Some s"
| "release_deferred cfg (Suc k) s =
     (case encode_deferral s of
        [] \<Rightarrow> Some s
      | deferred_frame # rest \<Rightarrow>
          if deferred_frame < cur_proc_frame_id s + kScheduleQueues cfg then
            if deferred_frame \<ge> cur_proc_frame_id s then
              (case ScheduleDownlinkProcessing cfg deferred_frame
                      (s\<lparr>log_info := log_info s @
                           [SchedulingDeferred deferred_frame (cur_proc_frame_id s)]\<rparr>) of
                 None \<Rightarrow> None
               | Some s1 \<Rightarrow> release_deferred cfg k (s1\<lparr>encode_deferral := tl (encode_deferral s1)\<rparr>))
            else None
          else Some s)"

definition reset_terminal_counters :: "Config \<Rightarrow> nat \<Rightarrow> Agora \<Rightarrow> Agora" where
  "reset_terminal_counters cfg frame_id s =
     (let W = kFrameWnd cfg;
          s1 = (if kUplinkHardDemod cfg
                then s\<lparr>demul_counters := Reset W (demul_counters s) frame_id\<rparr> else s)
      in s1\<lparr>decode_counters := Reset W (decode_counters s1) frame_id,
            tomac_counters := Reset W (tomac_counters s1) frame_id,
            ifft_counters := Reset W (ifft_counters s1) frame_id,
            tx_counters := Reset W (tx_counters s1) frame_id\<rparr>)"

text \<open>
  \<open>CheckFrameComplete\<close> returns the new state and \<open>finished\<close>. The comparison with
  \<open>FramesToTest() - 1\<close> is on \<open>size_t\<close>.
\<close>

definition CheckFrameComplete :: "Config \<Rightarrow> nat \<Rightarrow> Agora \<Rightarrow> (Agora \<times> bool) option" where
  "CheckFrameComplete cfg frame_id s =
     (if frame_complete_cond cfg frame_id s then
        let s1 = reset_terminal_counters cfg frame_id s;
            s2 = s1\<lparr>cur_proc_frame_id := cur_proc_frame_id s1 + 1\<rparr>
        in if frame_id = size_sub (FramesToTest cfg) 1 then Some (s2, True)
           else map_option (\<lambda>s3. (s3, False)) (release_deferred cfg (kScheduleQueues cfg) s2)
      else Some (s, False))"

section \<open>Receiving packets\<close>

text \<open>
  The deferral decision shared by \<open>UpdateRxCounters\<close> and the \<open>kPacketFromMac\<close> handler.
\<close>

definition defer_or_schedule :: "Config \<Rightarrow> nat \<Rightarrow> Agora \<Rightarrow> Agora option" where
  "defer_or_schedule cfg frame_id s =
     (if encode_deferral s \<noteq> [] \<or> frame_id \<ge> cur_proc_frame_id s + kScheduleQueues cfg
      then Some (s\<lparr>log_info := log_info s @ [Deferring frame_id],
                   encode_deferral := encode_deferral s @ [frame_id]\<rparr>)
      else ScheduleDownlinkProcessing cfg frame_id s)"

definition UpdateRxCounters :: "Config \<Rightarrow> nat \<Rightarrow> nat \<Rightarrow> Agora \<Rightarrow> Agora option" where
  "UpdateRxCounters cfg frame_id symbol_id s =
     do {
       let frame_slot = frame_id mod kFrameWnd cfg;
       let s1 =
         (if IsPilot cfg frame_id symbol_id then
            let n = num_pilot_pkts s frame_slot + 1
            in s\<lparr>num_pilot_pkts := (num_pilot_pkts s)
                   (frame_slot := (if n = num_pilot_pkts_per_frame cfg then 0 else n))\<rparr>
          else if IsCalDlPilot cfg frame_id symbol_id \<or> IsCalUlPilot cfg frame_id symbol_id then
            let n = num_reciprocity_pkts s frame_slot + 1
            in s\<lparr>num_reciprocity_pkts := (num_reciprocity_pkts s)
                   (frame_slot := (if n = num_reciprocity_pkts_per_frame cfg then 0 else n))\<rparr>
          else s);
       s2 \<leftarrow> (if num_pkts s1 frame_slot = 0 \<and> \<not> kEnableMac cfg
              then defer_or_schedule cfg frame_id s1 else Some s1);
       let n = num_pkts s2 frame_slot + 1;
       Some (s2\<lparr>num_pkts := (num_pkts s2)
                  (frame_slot := (if n = num_rx_pkts_per_frame cfg then 0 else n))\<rparr>)
     }"

text \<open>
  \<open>TryScheduleFft\<close>. The queue and the bucket are those of the schedule frame at entry;
  \<open>RtAssert\<close> ends the process on an empty queue, and a block size of zero is a division
  by zero.
\<close>

definition fft_created_tick :: "Config \<Rightarrow> Agora \<Rightarrow> Agora" where
  "fft_created_tick cfg s =
     (let s1 = s\<lparr>fft_created_count := fft_created_count s + 1\<rparr>
      in if fft_created_count s1 = num_rx_pkts_per_frame cfg then
           let s2 = s1\<lparr>fft_created_count := 0\<rparr>
           in if BigstationMode cfg
              then CheckIncrementScheduleFrame cfg (cur_sche_frame_id s2) kUplinkComplete s2
              else s2
         else s1)"

fun fft_pop_tags :: "Config \<Rightarrow> nat \<Rightarrow> nat \<Rightarrow> Agora \<Rightarrow> (gen_tag_t list \<times> Agora) option" where
  "fft_pop_tags cfg slot 0 s = Some ([], s)"
| "fft_pop_tags cfg slot (Suc j) s =
     (case fft_queue_arr s slot of
        [] \<Rightarrow> None
      | t # rest \<Rightarrow>
          (case fft_pop_tags cfg slot j
                  (fft_created_tick cfg (s\<lparr>fft_queue_arr := (fft_queue_arr s)(slot := rest)\<rparr>)) of
             None \<Rightarrow> None
           | Some (ts, s') \<Rightarrow> Some (t # ts, s')))"

fun fft_blocks :: "Config \<Rightarrow> nat \<Rightarrow> nat \<Rightarrow> nat \<Rightarrow> Agora \<Rightarrow> Agora option" where
  "fft_blocks cfg slot qid 0 s = Some s"
| "fft_blocks cfg slot qid (Suc i) s =
     (case fft_pop_tags cfg slot (FftBlockSize cfg) s of
        None \<Rightarrow> None
      | Some (ts, s') \<Rightarrow> fft_blocks cfg slot qid i (EnqueueEventTaskQueue kFFT qid ts s'))"

definition TryScheduleFft :: "Config \<Rightarrow> Agora \<Rightarrow> Agora option" where
  "TryScheduleFft cfg s =
     (let slot = cur_sche_frame_id s mod kFrameWnd cfg;
          qid = cur_sche_frame_id s AND 1;
          cur_fftq = fft_queue_arr s slot
      in if length cur_fftq \<ge> FftBlockSize cfg then
           if FftBlockSize cfg = 0 then None
           else fft_blocks cfg slot qid (length cur_fftq div FftBlockSize cfg) s
         else Some s)"

section \<open>The event handlers\<close>

text \<open>
  Calls that only print or record statistics are left out: they do not touch the state the
  scheduler decides on. \<open>SendSnrReport\<close> is compiled in unless \<open>TIME_EXCLUSIVE\<close> is
  defined; the model takes the default build.
\<close>

definition HandleEventFft :: "Config \<Rightarrow> gen_tag_t \<Rightarrow> Agora \<Rightarrow> Agora option" where
  "HandleEventFft cfg tg s =
     (let W = kFrameWnd cfg;
          frame_id = tag_frame_id tg;
          symbol_id = tag_symbol_id tg;
          sym_type = GetSymbolType cfg symbol_id
      in if sym_type = kPilot then
           let (c, last_fft_task) = CompleteTask W (pilot_fft_counters s) frame_id symbol_id;
               s1 = s\<lparr>pilot_fft_counters := c\<rparr>
           in if last_fft_task \<and> (\<not> IsRecCalEnabled cfg \<or> rc_last_frame s1 = frame_id) then
                let (c2, last_pilot_fft) = CompleteSymbol W (pilot_fft_counters s1) frame_id;
                    s2 = s1\<lparr>pilot_fft_counters := c2\<rparr>
                in if last_pilot_fft then
                     let s3 = s2\<lparr>pilot_fft_counters := Reset W (pilot_fft_counters s2) frame_id\<rparr>;
                         s4 = (if kEnableMac cfg then SendSnrReport cfg frame_id symbol_id s3 else s3)
                     in ScheduleSubcarriers cfg kBeam frame_id 0 s4
                   else Some s2
              else Some s1
         else if sym_type = kUL then
           let symbol_idx_ul = GetULSymbolIdx cfg symbol_id;
               (c, last_fft_per_symbol) = CompleteTask W (uplink_fft_counters s) frame_id symbol_id;
               s1 = s\<lparr>uplink_fft_counters := c\<rparr>
           in if last_fft_per_symbol then
                do {
                  v \<leftarrow> vec_set (fft_cur_frame_for_symbol s1) symbol_idx_ul frame_id;
                  let s2 = s1\<lparr>fft_cur_frame_for_symbol := v\<rparr>;
                  s3 \<leftarrow> (if beam_last_frame s2 = frame_id
                         then ScheduleSubcarriers cfg kDemul frame_id symbol_id s2 else Some s2);
                  let (c2, last_uplink_fft) = CompleteSymbol W (uplink_fft_counters s3) frame_id;
                  let s4 = s3\<lparr>uplink_fft_counters := c2\<rparr>;
                  Some (if last_uplink_fft
                        then s4\<lparr>uplink_fft_counters := Reset W (uplink_fft_counters s4) frame_id\<rparr>
                        else s4)
                }
              else Some s1
         else if sym_type = kCalDL \<or> sym_type = kCalUL then
           let (c, last_rc_task) = CompleteTask1 W (rc_counters s) frame_id;
               s1 = s\<lparr>rc_counters := c\<rparr>
           in Some (if last_rc_task
                    then s1\<lparr>rc_counters := Reset W (rc_counters s1) frame_id,
                            rc_last_frame := frame_id\<rparr>
                    else s1)
         else Some s)"

text \<open>\<open>case EventType::kPacketRX\<close>, with the \<open>break\<close> on a packet beyond the window.\<close>

definition HandlePacketRX :: "Config \<Rightarrow> EventData \<Rightarrow> Agora \<Rightarrow> Agora option" where
  "HandlePacketRX cfg event s =
     (let pkt = tag0 event;
          s0 = (if RecorderEnabled cfg then s\<lparr>recorded := recorded s @ [pkt]\<rparr> else s)
      in if tag_frame_id pkt \<ge> cur_sche_frame_id s0 + kFrameWnd cfg then
           Some (s0\<lparr>running := False\<rparr>)
         else
           do {
             s1 \<leftarrow> UpdateRxCounters cfg (tag_frame_id pkt) (tag_symbol_id pkt) s0;
             let slot = tag_frame_id pkt mod kFrameWnd cfg;
             Some (s1\<lparr>fft_queue_arr := (fft_queue_arr s1)(slot := fft_queue_arr s1 slot @ [pkt])\<rparr>)
           })"

text \<open>\<open>case EventType::kBeam\<close>: the body run for each tag.\<close>

definition HandleBeamTag :: "Config \<Rightarrow> gen_tag_t \<Rightarrow> Agora \<Rightarrow> Agora option" where
  "HandleBeamTag cfg tg s =
     (let W = kFrameWnd cfg;
          frame_id = tag_frame_id tg;
          (c, last_beam_task) = CompleteTask1 W (beam_counters s) frame_id;
          s1 = s\<lparr>beam_counters := c\<rparr>
      in if last_beam_task then
           do {
             let s2 = s1\<lparr>beam_last_frame := frame_id,
                         beam_counters := Reset W (beam_counters s1) frame_id\<rparr>;
             s3 \<leftarrow> fold_opt (\<lambda>i st.
                     do {
                       v \<leftarrow> vec_at (fft_cur_frame_for_symbol st) i;
                       if v = frame_id
                       then ScheduleSubcarriers cfg kDemul frame_id (GetULSymbol cfg i) st
                       else Some st
                     }) [0..<NumULSyms cfg] s2;
             fold_opt (\<lambda>i st.
                     do {
                       last_encoded_frame \<leftarrow> vec_at (encode_cur_frame_for_symbol st) i;
                       if last_encoded_frame \<noteq> SIZE_MAX \<and> last_encoded_frame \<ge> frame_id
                       then ScheduleSubcarriers cfg kPrecode frame_id (GetDLSymbol cfg i) st
                       else Some st
                     }) [0..<NumDLSyms cfg] s3
           }
         else Some s1)"

text \<open>
  \<open>case EventType::kDemul\<close>, in three parts: the body run when the last Demul symbol of the
  frame closes, the body run when the last Demul task of a symbol closes, and the case itself.
  The boolean of the result is \<open>finish\<close>; when it is set the handler has returned.
\<close>

definition demul_frame_closed :: "Config \<Rightarrow> nat \<Rightarrow> nat \<Rightarrow> Agora \<Rightarrow> (Agora \<times> bool) option" where
  "demul_frame_closed cfg frame_id symbol_id s =
     (let W = kFrameWnd cfg;
          s4 = s\<lparr>max_equaled_frame := frame_id\<rparr>
      in if kUplinkHardDemod cfg then
           CheckFrameComplete cfg frame_id
             (CheckIncrementScheduleFrame cfg frame_id kUplinkComplete s4)
         else
           let s5 = s4\<lparr>demul_counters := Reset W (demul_counters s4) frame_id\<rparr>
           in if \<not> BigstationMode cfg then
                Some (CheckIncrementScheduleFrame cfg frame_id kUplinkComplete s5, False)
              else
                map_option (\<lambda>st. (st, False))
                  (ScheduleCodeblocks cfg kDecode kUplink frame_id symbol_id s5))"

definition demul_symbol_closed :: "Config \<Rightarrow> nat \<Rightarrow> nat \<Rightarrow> Agora \<Rightarrow> (Agora \<times> bool) option" where
  "demul_symbol_closed cfg frame_id symbol_id s =
     Option.bind
       (if \<not> kUplinkHardDemod cfg
        then ScheduleCodeblocks cfg kDecode kUplink frame_id symbol_id s
        else Some s)
       (\<lambda>s2. let (c2, last_demul_symbol) = CompleteSymbol (kFrameWnd cfg) (demul_counters s2) frame_id;
                 s3 = s2\<lparr>demul_counters := c2\<rparr>
             in if last_demul_symbol then demul_frame_closed cfg frame_id symbol_id s3
                else Some (s3, False))"

definition HandleDemul :: "Config \<Rightarrow> EventData \<Rightarrow> Agora \<Rightarrow> (Agora \<times> bool) option" where
  "HandleDemul cfg event s =
     (let W = kFrameWnd cfg;
          frame_id = tag_frame_id (tag0 event);
          symbol_id = tag_symbol_id (tag0 event);
          (c, last_demul_task) = CompleteTask W (demul_counters s) frame_id symbol_id;
          s1 = s\<lparr>demul_counters := c\<rparr>
      in if last_demul_task then demul_symbol_closed cfg frame_id symbol_id s1
         else Some (s1, False))"

definition HandleDecode :: "Config \<Rightarrow> EventData \<Rightarrow> Agora \<Rightarrow> (Agora \<times> bool) option" where
  "HandleDecode cfg event s =
     (let W = kFrameWnd cfg;
          frame_id = tag_frame_id (tag0 event);
          symbol_id = tag_symbol_id (tag0 event);
          (c, last_decode_task) = CompleteTask W (decode_counters s) frame_id symbol_id;
          s1 = s\<lparr>decode_counters := c\<rparr>
      in if last_decode_task then
           let s2 = (if kEnableMac cfg then ScheduleUsers cfg frame_id symbol_id s1 else s1);
               (c2, last_decode_symbol) = CompleteSymbol W (decode_counters s2) frame_id;
               s3 = s2\<lparr>decode_counters := c2\<rparr>
           in if last_decode_symbol \<and> \<not> kEnableMac cfg
              then CheckFrameComplete cfg frame_id s3
              else Some (s3, False)
         else Some (s1, False))"

definition HandlePacketToMac :: "Config \<Rightarrow> EventData \<Rightarrow> Agora \<Rightarrow> (Agora \<times> bool) option" where
  "HandlePacketToMac cfg event s =
     (let W = kFrameWnd cfg;
          frame_id = tag_frame_id (tag0 event);
          symbol_id = tag_symbol_id (tag0 event);
          (c, last_tomac_task) = CompleteTask W (tomac_counters s) frame_id symbol_id;
          s1 = s\<lparr>tomac_counters := c\<rparr>
      in if last_tomac_task then
           let (c2, last_tomac_symbol) = CompleteSymbol W (tomac_counters s1) frame_id;
               s2 = s1\<lparr>tomac_counters := c2\<rparr>
           in if last_tomac_symbol then CheckFrameComplete cfg frame_id s2
              else Some (s2, False)
         else Some (s1, False))"

definition HandlePacketFromMac :: "Config \<Rightarrow> EventData \<Rightarrow> Agora \<Rightarrow> Agora option" where
  "HandlePacketFromMac cfg event s =
     (let W = kFrameWnd cfg;
          frame_id = tag_frame_id (tag0 event);
          (c, last_ue) = CompleteTask W (mac_to_phy_counters s) frame_id 0;
          s1 = s\<lparr>mac_to_phy_counters := c\<rparr>
      in if last_ue then
           map_option (\<lambda>s2. s2\<lparr>mac_to_phy_counters := Reset W (mac_to_phy_counters s2) frame_id\<rparr>)
             (defer_or_schedule cfg frame_id s1)
         else Some s1)"

definition HandleEncodeTag :: "Config \<Rightarrow> gen_tag_t \<Rightarrow> Agora \<Rightarrow> Agora option" where
  "HandleEncodeTag cfg tg s =
     (let W = kFrameWnd cfg;
          frame_id = tag_frame_id tg;
          symbol_id = tag_symbol_id tg;
          (c, last_encode_task) = CompleteTask W (encode_counters s) frame_id symbol_id;
          s1 = s\<lparr>encode_counters := c\<rparr>
      in if last_encode_task then
           do {
             v \<leftarrow> vec_set (encode_cur_frame_for_symbol s1) (GetDLSymbolIdx cfg symbol_id) frame_id;
             let s2 = s1\<lparr>encode_cur_frame_for_symbol := v\<rparr>;
             s3 \<leftarrow> (if beam_last_frame s2 = frame_id
                    then ScheduleSubcarriers cfg kPrecode frame_id symbol_id s2 else Some s2);
             let (c2, last_encode_symbol) = CompleteSymbol W (encode_counters s3) frame_id;
             let s4 = s3\<lparr>encode_counters := c2\<rparr>;
             Some (if last_encode_symbol
                   then s4\<lparr>encode_counters := Reset W (encode_counters s4) frame_id\<rparr>
                   else s4)
           }
         else Some s1)"

definition HandlePrecode :: "Config \<Rightarrow> EventData \<Rightarrow> Agora \<Rightarrow> Agora option" where
  "HandlePrecode cfg event s =
     (let W = kFrameWnd cfg;
          frame_id = tag_frame_id (tag0 event);
          symbol_id = tag_symbol_id (tag0 event);
          (c, last_precode_task) = CompleteTask W (precode_counters s) frame_id symbol_id;
          s1 = s\<lparr>precode_counters := c\<rparr>
      in if last_precode_task then
           do {
             s2 \<leftarrow> ScheduleAntennas cfg kIFFT frame_id symbol_id s1;
             let (c2, last_precode_symbol) = CompleteSymbol W (precode_counters s2) frame_id;
             let s3 = s2\<lparr>precode_counters := c2\<rparr>;
             Some (if last_precode_symbol
                   then s3\<lparr>precode_counters := Reset W (precode_counters s3) frame_id\<rparr>
                   else s3)
           }
         else Some s1)"

text \<open>
  \<open>case EventType::kIFFT\<close>. The inner loop runs \<open>sym_id\<close> from the closed symbol's index
  up to and including the frame's symbol count; its third argument counts the iterations left.
\<close>

fun ifft_tx_loop :: "Config \<Rightarrow> nat \<Rightarrow> nat \<Rightarrow> nat \<Rightarrow> Agora \<Rightarrow> Agora option" where
  "ifft_tx_loop cfg frame_id sym_id 0 s = Some s"
| "ifft_tx_loop cfg frame_id sym_id (Suc k) s =
     (case vec_at (ifft_cur_frame_for_symbol s) sym_id of
        None \<Rightarrow> None
      | Some symbol_ifft_frame \<Rightarrow>
          if symbol_ifft_frame = frame_id then
            (case ScheduleAntennasTX cfg frame_id (GetDLSymbol cfg sym_id) s of
               None \<Rightarrow> None
             | Some s1 \<Rightarrow>
                 ifft_tx_loop cfg frame_id (sym_id + 1) k
                   (s1\<lparr>ifft_next_symbol := ifft_next_symbol s1 + 1\<rparr>))
          else Some s)"

text \<open>The body run when the IFFT counter of a symbol closes (\<open>last_ifft_task\<close>).\<close>

definition ifft_symbol_closed :: "Config \<Rightarrow> nat \<Rightarrow> nat \<Rightarrow> Agora \<Rightarrow> (Agora \<times> bool) option" where
  "ifft_symbol_closed cfg frame_id symbol_idx_dl s =
     do {
       let W = kFrameWnd cfg;
       v \<leftarrow> vec_set (ifft_cur_frame_for_symbol s) symbol_idx_dl frame_id;
       let s1 = s\<lparr>ifft_cur_frame_for_symbol := v\<rparr>;
       s2 \<leftarrow> (if symbol_idx_dl = ifft_next_symbol s1
              then ifft_tx_loop cfg frame_id symbol_idx_dl
                     (GetSymbolCount W (ifft_counters s1) frame_id + 1 - symbol_idx_dl) s1
              else Some s1);
       let (c2, last_ifft_symbol) = CompleteSymbol W (ifft_counters s2) frame_id;
       let s3 = s2\<lparr>ifft_counters := c2\<rparr>;
       if last_ifft_symbol then
         CheckFrameComplete cfg frame_id
           (CheckIncrementScheduleFrame cfg frame_id kDownlinkComplete (s3\<lparr>ifft_next_symbol := 0\<rparr>))
       else Some (s3, False)
     }"

definition HandleIfftTag :: "Config \<Rightarrow> gen_tag_t \<Rightarrow> Agora \<Rightarrow> (Agora \<times> bool) option" where
  "HandleIfftTag cfg tg s =
     (let W = kFrameWnd cfg;
          frame_id = tag_frame_id tg;
          symbol_id = tag_symbol_id tg;
          symbol_idx_dl = GetDLSymbolIdx cfg symbol_id;
          (c, last_ifft_task) = CompleteTask W (ifft_counters s) frame_id symbol_id;
          s1 = s\<lparr>ifft_counters := c\<rparr>
      in if last_ifft_task then ifft_symbol_closed cfg frame_id symbol_idx_dl s1
         else Some (s1, False))"

definition HandleBroadcast :: "Config \<Rightarrow> EventData \<Rightarrow> Agora \<Rightarrow> Agora option" where
  "HandleBroadcast cfg event s =
     fold_opt (\<lambda>idx st. ScheduleAntennasTX cfg (tag_frame_id (tag0 event))
                          (GetDLControlSymbol cfg idx) st)
       [0..<NumDlControlSyms cfg] s"

text \<open>
  \<open>case EventType::kPacketTX\<close>. The throughput counter \<open>tx_count\<close> only feeds a log line
  and is left out.
\<close>

definition HandlePacketTX :: "Config \<Rightarrow> EventData \<Rightarrow> Agora \<Rightarrow> (Agora \<times> bool) option" where
  "HandlePacketTX cfg event s =
     (let W = kFrameWnd cfg;
          frame_id = tag_frame_id (tag0 event);
          symbol_id = tag_symbol_id (tag0 event);
          (c, last_tx_task) = CompleteTask W (tx_counters s) frame_id symbol_id;
          s1 = s\<lparr>tx_counters := c\<rparr>
      in if last_tx_task then
           let (c2, last_tx_symbol) = CompleteSymbol W (tx_counters s1) frame_id;
               s2 = s1\<lparr>tx_counters := c2\<rparr>
           in if last_tx_symbol then CheckFrameComplete cfg frame_id s2
              else Some (s2, False)
         else Some (s1, False))"

text \<open>
  The switch of \<open>HandleEvents\<close>. \<open>kRANUpdate\<close> changes the uplink modulation of the
  configuration only; the configuration is a parameter here and the scheduler's state is left
  as it is. Any other kind reaches \<open>std::exit\<close>.
\<close>

definition HandleEvents_switch :: "Config \<Rightarrow> EventData \<Rightarrow> Agora \<Rightarrow> (Agora \<times> bool) option" where
  "HandleEvents_switch cfg event s =
     (let no_finish = map_option (\<lambda>st. (st, False))
      in case event_type event of
           kPacketRX \<Rightarrow> no_finish (HandlePacketRX cfg event s)
         | kFFT \<Rightarrow> no_finish (fold_opt (HandleEventFft cfg) (ev_tags event) s)
         | kBeam \<Rightarrow> no_finish (fold_opt (HandleBeamTag cfg) (ev_tags event) s)
         | kDemul \<Rightarrow> HandleDemul cfg event s
         | kDecode \<Rightarrow> HandleDecode cfg event s
         | kRANUpdate \<Rightarrow> Some (s, False)
         | kPacketToMac \<Rightarrow> HandlePacketToMac cfg event s
         | kPacketFromMac \<Rightarrow> no_finish (HandlePacketFromMac cfg event s)
         | kEncode \<Rightarrow> no_finish (fold_opt (HandleEncodeTag cfg) (ev_tags event) s)
         | kPrecode \<Rightarrow> no_finish (HandlePrecode cfg event s)
         | kIFFT \<Rightarrow> for_tags (HandleIfftTag cfg) (ev_tags event) s
         | kBroadcast \<Rightarrow> no_finish (HandleBroadcast cfg event s)
         | kPacketTX \<Rightarrow> HandlePacketTX cfg event s
         | kSNRReport \<Rightarrow> None
         | kOtherEvent \<Rightarrow> None)"

text \<open>
  \<open>HandleEvents\<close>: after the switch \<open>TryScheduleFft\<close> runs, unless the handler has set
  \<open>finish\<close> and returned.
\<close>

definition HandleEvents :: "Config \<Rightarrow> EventData \<Rightarrow> Agora \<Rightarrow> (Agora \<times> bool) option" where
  "HandleEvents cfg event s =
     (case HandleEvents_switch cfg event s of
        None \<Rightarrow> None
      | Some (s1, finish) \<Rightarrow>
          if finish then Some (s1, True)
          else map_option (\<lambda>s2. (s2, False)) (TryScheduleFft cfg s1))"

section \<open>Construction\<close>

text \<open>
  The constructor and \<open>InitializeCounters\<close>. The member initialisers of the last-frame
  markers are in the class header; they hold \<open>SIZE_MAX\<close>, the value the source itself uses
  for "no frame yet" in the per-symbol vectors. The downlink counters and vectors are only
  initialised when the frame has downlink symbols.
\<close>

definition Agora_new :: "Config \<Rightarrow> Agora" where
  "Agora_new cfg =
     (let dl = NumDLSyms cfg > 0;
          s0 = \<lparr> cur_sche_frame_id = 0, cur_proc_frame_id = 0,
                 schedule_process_flags = kNone, running = True,
                 encode_deferral = [], fft_queue_arr = (\<lambda>_. []), fft_created_count = 0,
                 num_pkts = (\<lambda>_. 0), num_pilot_pkts = (\<lambda>_. 0), num_reciprocity_pkts = (\<lambda>_. 0),
                 pilot_fft_counters = Init (NumPilotSyms cfg) (BsAntNum cfg),
                 uplink_fft_counters = Init (NumULSyms cfg) (BsAntNum cfg),
                 rc_counters = Init (BsAntNum cfg) 0,
                 beam_counters = Init (BeamEventsPerSymbol cfg) 0,
                 demul_counters = Init (NumULSyms cfg) (DemulEventsPerSymbol cfg),
                 decode_counters =
                   Init (NumULSyms cfg) (NumBlocksInSymbol cfg kUplink * SpatialStreamsNum cfg),
                 tomac_counters = Init (NumULSyms cfg) (SpatialStreamsNum cfg),
                 encode_counters =
                   (if dl then Init (NumDlDataSyms cfg)
                                 (NumBlocksInSymbol cfg kDownlink * SpatialStreamsNum cfg)
                    else Init 0 0),
                 precode_counters =
                   (if dl then Init (NumDLSyms cfg) (DemulEventsPerSymbol cfg) else Init 0 0),
                 ifft_counters = (if dl then Init (NumDLSyms cfg) (BsAntNum cfg) else Init 0 0),
                 tx_counters =
                   (if dl then Init (NumDlControlSyms cfg + NumDLSyms cfg) (BsAntNum cfg)
                    else Init 0 0),
                 mac_to_phy_counters = (if dl then Init 1 (SpatialStreamsNum cfg) else Init 0 0),
                 fft_cur_frame_for_symbol = replicate (NumULSyms cfg) SIZE_MAX,
                 encode_cur_frame_for_symbol = (if dl then replicate (NumDLSyms cfg) SIZE_MAX else []),
                 ifft_cur_frame_for_symbol = (if dl then replicate (NumDLSyms cfg) SIZE_MAX else []),
                 ifft_next_symbol = 0, beam_last_frame = SIZE_MAX, rc_last_frame = SIZE_MAX,
                 max_equaled_frame = SIZE_MAX,
                 task_queue = [], tx_queue = [], mac_request_queue = [], recorded = [],
                 log_info = [] \<rparr>;
          s1 = CheckIncrementScheduleFrame cfg 0 kProcessingComplete s0
      in s1\<lparr>cur_sche_frame_id := 0, cur_proc_frame_id := 0\<rparr>)"

section \<open>The master loop\<close>

text \<open>
  What the loop of \<open>Start\<close> meets from outside: whether the streamer started, the batch
  of events a poll returns in each iteration, and whether the exit signal is raised.
\<close>

record Env =
  start_status :: bool
  batch :: "nat \<Rightarrow> EventData list"
  GotExitSignal :: "nat \<Rightarrow> bool"

datatype Source = FetchStreamerEvent | FetchDoerEvent

record Master =
  agora :: Agora
  is_turn_to_dequeue_from_io :: bool
  finish :: bool
  iteration :: nat
  polled :: "Source list"
  stats_printed :: bool
  stats_saved :: bool

text \<open>The \<open>for\<close> loop over the batch, left at the first event that sets \<open>finish\<close>.\<close>

fun handle_batch :: "Config \<Rightarrow> EventData list \<Rightarrow> Agora \<Rightarrow> (Agora \<times> bool) option" where
  "handle_batch cfg [] s = Some (s, False)"
| "handle_batch cfg (e # es) s =
     (case HandleEvents cfg e s of
        None \<Rightarrow> None
      | Some (s', fin) \<Rightarrow> if fin then Some (s', True) else handle_batch cfg es s')"

definition Start_iteration :: "Config \<Rightarrow> Env \<Rightarrow> Master \<Rightarrow> Master option" where
  "Start_iteration cfg env m =
     (let src = (if is_turn_to_dequeue_from_io m then FetchStreamerEvent else FetchDoerEvent);
          events_list = batch env (iteration m);
          m1 = m\<lparr>polled := polled m @ [src],
                 is_turn_to_dequeue_from_io := \<not> is_turn_to_dequeue_from_io m\<rparr>
      in case handle_batch cfg events_list (agora m1) of
           None \<Rightarrow> None
         | Some (s', fin) \<Rightarrow>
             Some (m1\<lparr>agora := s', finish := fin, iteration := iteration m1 + 1\<rparr>))"

text \<open>
  The \<open>while\<close> loop, with fuel: the loop need not end, so a run is cut after the given number
  of condition tests and says so.
\<close>

datatype outcome = Exited Master | Aborted | OutOfFuel Master

fun Start_loop :: "Config \<Rightarrow> Env \<Rightarrow> nat \<Rightarrow> Master \<Rightarrow> outcome" where
  "Start_loop cfg env 0 m = OutOfFuel m"
| "Start_loop cfg env (Suc n) m =
     (if running (agora m) \<and> \<not> GotExitSignal env (iteration m) \<and> \<not> finish m then
        (case Start_iteration cfg env m of
           None \<Rightarrow> Aborted
         | Some m' \<Rightarrow> Start_loop cfg env n m')
      else Exited m)"


definition Master_new :: "Agora \<Rightarrow> Master" where
  "Master_new a =
     \<lparr> agora = a, is_turn_to_dequeue_from_io = True, finish = False, iteration = 0,
       polled = [], stats_printed = False, stats_saved = False \<rparr>"


section \<open>The worker loop\<close>

text \<open>
  Modelled from the spec: \<open>Doer::TryLaunch\<close> is declared outside the files verified here.
  It attempts to dequeue one task from the kernel's task sub-queue, runs it and enqueues a
  completion event on the completion queue of the bucket; it reports whether a task was found.
\<close>

record Queues =
  task_queues :: "EventType \<Rightarrow> nat \<Rightarrow> gen_tag_t list list"
  comp_queues :: "nat \<Rightarrow> (EventType \<times> gen_tag_t list) list"

definition TryLaunch :: "EventType \<Rightarrow> nat \<Rightarrow> Queues \<Rightarrow> bool \<times> Queues" where
  "TryLaunch ty qid q =
     (case task_queues q ty qid of
        [] \<Rightarrow> (False, q)
      | req # rest \<Rightarrow>
          (True, q\<lparr>task_queues := (task_queues q)(ty := (task_queues q ty)(qid := rest)),
                  comp_queues := (comp_queues q)(qid := comp_queues q qid @ [(ty, req)])\<rparr>))"

record Worker =
  cur_qid :: nat
  empty_queue_itrs :: nat
  empty_queue :: bool

definition events_vec :: "Config \<Rightarrow> EventType list" where
  "events_vec cfg =
     [kBeam, kFFT]
     @ (if NumULSyms cfg > 0 then [kDecode, kDemul] else [])
     @ (if NumDLSyms cfg > 0 then [kIFFT, kPrecode, kEncode] else [])"

text \<open>The \<open>for\<close> loop over the kernels, left at the first one that launches a task.\<close>

fun try_kernels :: "EventType list \<Rightarrow> nat \<Rightarrow> Queues \<Rightarrow> bool \<times> Queues" where
  "try_kernels [] qid q = (False, q)"
| "try_kernels (ty # tys) qid q =
     (case TryLaunch ty qid q of
        (True, q') \<Rightarrow> (True, q')
      | (False, q') \<Rightarrow> try_kernels tys qid q')"

text \<open>
  One iteration of the loop of \<open>WorkerThread\<close> (and the body of \<open>RunWorker\<close>). The two
  frame cursors are read from memory shared with the master; they are arguments here.
\<close>

definition WorkerIteration :: "Config \<Rightarrow> nat \<Rightarrow> nat \<Rightarrow> Worker \<times> Queues \<Rightarrow> Worker \<times> Queues" where
  "WorkerIteration cfg sche_frame proc_frame wq =
     (let w = fst wq;
          (launched, q') = try_kernels (events_vec cfg) (cur_qid w) (snd wq);
          w1 = (if launched then w\<lparr>empty_queue := False\<rparr> else w)
      in if empty_queue w1 then
           let w2 = w1\<lparr>empty_queue_itrs := empty_queue_itrs w1 + 1\<rparr>
           in if empty_queue_itrs w2 = 5 then
                (w2\<lparr>cur_qid := (if sche_frame \<noteq> proc_frame then cur_qid w2 XOR 1
                                 else sche_frame AND 1),
                     empty_queue_itrs := 0\<rparr>, q')
              else (w2, q')
         else (w1\<lparr>empty_queue := True\<rparr>, q'))"

definition Worker_new :: Worker where
  "Worker_new = \<lparr> cur_qid = 0, empty_queue_itrs = 0, empty_queue = True \<rparr>"

section \<open>Notions used in the statements\<close>

text \<open>The order in which the two sources are polled when the streamer goes first.\<close>

definition alternation :: "nat \<Rightarrow> Source list" where
  "alternation n = map (\<lambda>i. if even i then FetchStreamerEvent else FetchDoerEvent) [0..<n]"

definition loop_inv :: "Master \<Rightarrow> bool" where
  "loop_inv m = (polled m = alternation (iteration m)
                 \<and> is_turn_to_dequeue_from_io m = even (iteration m))"

text \<open>
  A scheduling step: the state changes by tasks appended to the task queue, all satisfying
  a given predicate, and by the last-encoded-frame vector.
\<close>

definition sched_step :: "(task \<Rightarrow> bool) \<Rightarrow> Agora \<Rightarrow> Agora \<Rightarrow> bool" where
  "sched_step P s s' =
     (\<exists>ts v. s' = s\<lparr>task_queue := task_queue s @ ts, encode_cur_frame_for_symbol := v\<rparr>
             \<and> list_all P ts)"

text \<open>A task of one of the given kinds, of frame \<open>f\<close>, on the bucket \<open>f mod 2\<close>.\<close>

definition task_for :: "EventType set \<Rightarrow> nat \<Rightarrow> task \<Rightarrow> bool" where
  "task_for kinds f tk =
     (task_type tk \<in> kinds \<and> task_qid tk = f mod 2
      \<and> list_all (\<lambda>t. tag_frame_id t = f) (task_tags tk))"

definition dl_kinds :: "EventType set" where
  "dl_kinds = {kBroadcast, kPrecode, kEncode}"

definition empty_Queues :: Queues where
  "empty_Queues = \<lparr> task_queues = (\<lambda>_ _. []), comp_queues = (\<lambda>_. []) \<rparr>"

text \<open>
  A small uplink-only configuration for concrete runs: a window of four frames, two
  antennas, one pilot symbol (symbol 0) and one uplink symbol (symbol 1).
\<close>

definition cfg_ul :: Config where
  "cfg_ul = \<lparr> kFrameWnd = 4, kScheduleQueues = 2, kUplinkHardDemod = False, kEnableMac = False,
     RecorderEnabled = False, BsAntNum = 2, BfAntNum = 2, FftBlockSize = 2, EncodeBlockSize = 1,
     DemulBlockSize = 1, DemulEventsPerSymbol = 1, BeamBlockSize = 1, BeamEventsPerSymbol = 1,
     SpatialStreamsNum = 1, UeAntNum = 1, NumBlocksInSymbol = (\<lambda>_. 1), BigstationMode = False,
     FramesToTest = 3, SocketThreadNum = 1, AntNumToWorkerId = (\<lambda>_. 0),
     NumPilotSyms = 1, NumULSyms = 1, NumDLSyms = 0, NumDlControlSyms = 0, NumDlDataSyms = 0,
     NumULCalSyms = 0, NumDLCalSyms = 0, ClientDlPilotSymbols = 0, IsRecCalEnabled = False,
     GetSymbolType = (\<lambda>sy. if sy = 0 then kPilot else if sy = 1 then kUL else kOtherSymbol),
     IsPilot = (\<lambda>f sy. sy = 0), IsCalDlPilot = (\<lambda>_ _. False), IsCalUlPilot = (\<lambda>_ _. False),
     GetULSymbol = (\<lambda>i. 1), GetDLSymbol = (\<lambda>i. 0), GetDLControlSymbol = (\<lambda>i. 0),
     GetULSymbolIdx = (\<lambda>sy. if sy = 1 then 0 else SIZE_MAX),
     GetDLSymbolIdx = (\<lambda>sy. SIZE_MAX) \<rparr>"

definition env_idle :: Env where
  "env_idle = \<lparr> start_status = True, batch = (\<lambda>_. []), GotExitSignal = (\<lambda>_. False) \<rparr>"

text \<open>
  The effect of releasing the first \<open>n\<close> frames of the deferral queue: they leave the queue,
  one log line each is written in queue order, and downlink tasks of those frames are appended
  to the task queue.
\<close>

definition released :: "nat \<Rightarrow> Agora \<Rightarrow> Agora \<Rightarrow> bool" where
  "released n s s' =
     (\<exists>ts v. s' = s\<lparr>task_queue := task_queue s @ ts, encode_cur_frame_for_symbol := v,
                      encode_deferral := drop n (encode_deferral s),
                      log_info := log_info s @
                        map (\<lambda>d. SchedulingDeferred d (cur_proc_frame_id s))
                            (take n (encode_deferral s))\<rparr>
             \<and> list_all (\<lambda>tk. \<exists>d \<in> set (take n (encode_deferral s)). task_for dl_kinds d tk) ts)"

text \<open>Events for concrete runs.\<close>

definition mk_tag :: "nat \<Rightarrow> nat \<Rightarrow> nat \<Rightarrow> gen_tag_t" where
  "mk_tag f sy i = \<lparr>tag_frame_id = f, tag_symbol_id = sy, tag_inner_id = i\<rparr>"

definition mk_event :: "EventType \<Rightarrow> gen_tag_t \<Rightarrow> gen_tag_t list \<Rightarrow> EventData" where
  "mk_event ty t ts = \<lparr>event_type = ty, tag0 = t, more_tags = ts\<rparr>"

text \<open>
  With \<open>cfg_ul\<close>: the four packets of a frame (two antennas, pilot symbol 0 and uplink
  symbol 1), and the completion events the workers return for a frame.
\<close>

definition frame_rx :: "nat \<Rightarrow> EventData list" where
  "frame_rx f =
     [mk_event kPacketRX (mk_tag f 0 0) [], mk_event kPacketRX (mk_tag f 0 1) [],
      mk_event kPacketRX (mk_tag f 1 0) [], mk_event kPacketRX (mk_tag f 1 1) []]"

definition frame_done :: "nat \<Rightarrow> EventData list" where
  "frame_done f =
     [mk_event kFFT (mk_tag f 0 0) [mk_tag f 0 1], mk_event kFFT (mk_tag f 1 0) [mk_tag f 1 1],
      mk_event kBeam (mk_tag f 0 0) [], mk_event kDemul (mk_tag f 1 0) [],
      mk_event kDecode (mk_tag f 1 0) []]"

text \<open>
  A run in which the first packets of frames 3 and 2 arrive, in this order, while frame 0
  is in processing, and frames 0 and 1 are then completed.
\<close>

definition trace_deferral :: "EventData list" where
  "trace_deferral =
     frame_rx 0 @ frame_rx 1
     @ [mk_event kPacketRX (mk_tag 3 0 0) [], mk_event kPacketRX (mk_tag 2 0 0) []]
     @ frame_done 0 @ frame_done 1"

text \<open>The window bound on the two frame cursors.\<close>

definition window_bound :: "Config \<Rightarrow> Agora \<Rightarrow> bool" where
  "window_bound cfg s =
     (cur_proc_frame_id s \<le> cur_sche_frame_id s
      \<and> cur_sche_frame_id s < cur_proc_frame_id s + kFrameWnd cfg)"

text \<open>What a run leaves of the cursors, the deferral queue and its log.\<close>

definition cursors :: "(Agora \<times> bool) option \<Rightarrow> (nat \<times> nat) option" where
  "cursors r = map_option (\<lambda>p. (cur_sche_frame_id (fst p), cur_proc_frame_id (fst p))) r"

definition deferral_view :: "(Agora \<times> bool) option \<Rightarrow> (nat list \<times> log_line list \<times> nat) option" where
  "deferral_view r =
     map_option (\<lambda>p. (encode_deferral (fst p), log_info (fst p), cur_proc_frame_id (fst p))) r"

text \<open>The uplink-only configuration in big-station mode, and one with a single frame to test.\<close>

definition cfg_big :: Config where
  "cfg_big = cfg_ul\<lparr>BigstationMode := True\<rparr>"


definition trace_big :: "EventData list" where
  "trace_big = frame_rx 0 @ frame_rx 1 @ frame_rx 2 @ frame_rx 3"


text \<open>
  A state of the uplink-only configuration in which the decoding of frame 0 has closed and
  frames 2 and 5 wait in the deferral queue; the same state after the scheduling of frame 0
  has completed.
\<close>

definition state_deferred :: Agora where
  "state_deferred =
     (Agora_new cfg_ul)\<lparr>encode_deferral := [2, 5],
        decode_counters := (decode_counters (Agora_new cfg_ul))\<lparr>symbol_count := (\<lambda>_. 1)\<rparr>\<rparr>"

definition state_scheduled :: Agora where
  "state_scheduled = CheckIncrementScheduleFrame cfg_ul 0 kUplinkComplete state_deferred"

text \<open>
  The effect of handing \<open>i\<close> blocks of \<open>B\<close> packets of a slot's queue to the FFT: the
  packets leave the queue from the front, one task per block is appended to the task queue on
  bucket \<open>qid\<close>, and only the FFT count, the schedule cursor and the schedule flags may
  change besides.
\<close>

definition fft_tasks :: "nat \<Rightarrow> nat \<Rightarrow> nat \<Rightarrow> gen_tag_t list \<Rightarrow> task list" where
  "fft_tasks qid B i q = map (\<lambda>k. (kFFT, qid, take B (drop (k * B) q))) [0..<i]"

definition fft_effect :: "nat \<Rightarrow> nat \<Rightarrow> nat \<Rightarrow> nat \<Rightarrow> Agora \<Rightarrow> Agora \<Rightarrow> bool" where
  "fft_effect slot qid B i s s' =
     (\<exists>c cs fl. s' = s\<lparr>fft_queue_arr := (fft_queue_arr s)
                           (slot := drop (i * B) (fft_queue_arr s slot)),
                        fft_created_count := c, cur_sche_frame_id := cs,
                        schedule_process_flags := fl,
                        task_queue := task_queue s @ fft_tasks qid B i (fft_queue_arr s slot)\<rparr>)"

text \<open>
  The uplink-only configuration with three antennas, so that the block size of two does not
  divide the antenna count, and the six packets of a frame in arrival order.
\<close>

definition cfg_odd :: Config where
  "cfg_odd = cfg_ul\<lparr>BsAntNum := 3, BfAntNum := 3\<rparr>"

definition trace_odd :: "EventData list" where
  "trace_odd =
     [mk_event kPacketRX (mk_tag 0 0 0) [], mk_event kPacketRX (mk_tag 0 0 1) [],
      mk_event kPacketRX (mk_tag 0 0 2) [], mk_event kPacketRX (mk_tag 0 1 0) [],
      mk_event kPacketRX (mk_tag 0 1 1) [], mk_event kPacketRX (mk_tag 0 1 2) []]"

definition tasks_view :: "(Agora \<times> bool) option \<Rightarrow> (EventType \<times> gen_tag_t list) list option" where
  "tasks_view r = map_option (\<lambda>p. map (\<lambda>tk. (task_type tk, task_tags tk)) (task_queue (fst p))) r"





section \<open>Auxiliary facts\<close>

lemma fold_opt_rel:
  assumes "\<And>x a b. x \<in> set xs \<Longrightarrow> f x a = Some b \<Longrightarrow> R a b"
    and "\<And>a. R a a" and "\<And>a b c. R a b \<Longrightarrow> R b c \<Longrightarrow> R a c"
    and "fold_opt f xs s = Some s'"
  shows "R s s'"
  using assms(1,4)
proof (induction xs arbitrary: s)
  case Nil
  then show ?case using assms(2) by simp
next
  case (Cons x xs)
  from Cons.prems(2) obtain s1 where s1: "f x s = Some s1" and r: "fold_opt f xs s1 = Some s'"
    by (auto split: option.splits)
  have "R s s1" using Cons.prems(1) [of x s s1] s1 by simp
  moreover have "R s1 s'" using Cons.IH [OF _ r] Cons.prems(1) by auto
  ultimately show ?case using assms(3) by blast
qed

lemma sched_step_refl: "sched_step P s s"
  unfolding sched_step_def
  by (rule exI [of _ "[]"], rule exI [of _ "encode_cur_frame_for_symbol s"]) simp

lemma sched_step_trans: "sched_step P a b \<Longrightarrow> sched_step P b c \<Longrightarrow> sched_step P a c"
  unfolding sched_step_def
proof (elim exE conjE)
  fix ts v ts' v'
  assume b: "b = a\<lparr>task_queue := task_queue a @ ts, encode_cur_frame_for_symbol := v\<rparr>"
    and c: "c = b\<lparr>task_queue := task_queue b @ ts', encode_cur_frame_for_symbol := v'\<rparr>"
    and P: "list_all P ts" "list_all P ts'"
  have "c = a\<lparr>task_queue := task_queue a @ (ts @ ts'), encode_cur_frame_for_symbol := v'\<rparr>"
    by (simp add: b c)
  moreover have "list_all P (ts @ ts')" using P by simp
  ultimately show "\<exists>ts v. c = a\<lparr>task_queue := task_queue a @ ts, encode_cur_frame_for_symbol := v\<rparr>
             \<and> list_all P ts" by blast
qed

lemma sched_step_tasks: "list_all P ts \<Longrightarrow> sched_step P s (s\<lparr>task_queue := task_queue s @ ts\<rparr>)"
  unfolding sched_step_def
  by (rule exI [of _ ts], rule exI [of _ "encode_cur_frame_for_symbol s"]) simp

lemma sched_step_vec: "sched_step P s (s\<lparr>encode_cur_frame_for_symbol := v\<rparr>)"
  unfolding sched_step_def
  by (rule exI [of _ "[]"], rule exI [of _ v]) simp

lemma sched_step_mono:
  "sched_step P s s' \<Longrightarrow> (\<And>tk. P tk \<Longrightarrow> Q tk) \<Longrightarrow> sched_step Q s s'"
  unfolding sched_step_def list_all_iff by blast

lemma block_events_task_for:
  "ty \<in> kinds \<Longrightarrow> tag_frame_id base = f \<Longrightarrow>
   list_all (task_for kinds f) (block_events ty (f mod 2) r n base k)"
proof (induction k arbitrary: n base)
  case 0
  show ?case by simp
next
  case (Suc k)
  define m where "m = (if k = 0 \<and> r > 0 then r else n)"
  define base' where "base' = base\<lparr>tag_inner_id := tag_inner_id base + m\<rparr>"
  define tgs where "tgs = map (\<lambda>j. base\<lparr>tag_inner_id := tag_inner_id base + j\<rparr>) [0..<m]"
  have eq: "block_events ty (f mod 2) r n base (Suc k)
            = (ty, f mod 2, tgs) # block_events ty (f mod 2) r m base' k"
    by (simp add: m_def base'_def tgs_def Let_def)
  have "tag_frame_id base' = f" using Suc.prems(2) by (simp add: base'_def)
  then have rest: "list_all (task_for kinds f) (block_events ty (f mod 2) r m base' k)"
    using Suc.IH Suc.prems(1) by blast
  have "list_all (\<lambda>t. tag_frame_id t = f) tgs"
    using Suc.prems(2) by (simp add: tgs_def list_all_iff)
  then have "task_for kinds f (ty, f mod 2, tgs)"
    using Suc.prems(1) by (simp add: task_for_def task_type_def task_qid_def task_tags_def)
  then show ?case unfolding eq using rest by simp
qed

lemma subcarrier_events_task_for:
  "ty \<in> kinds \<Longrightarrow> tag_frame_id base = f \<Longrightarrow>
   list_all (task_for kinds f) (subcarrier_events ty (f mod 2) b base k)"
proof (induction k arbitrary: base)
  case 0
  show ?case by simp
next
  case (Suc k)
  define base' where "base' = base\<lparr>tag_inner_id := tag_inner_id base + b\<rparr>"
  have eq: "subcarrier_events ty (f mod 2) b base (Suc k)
            = (ty, f mod 2, [base]) # subcarrier_events ty (f mod 2) b base' k"
    by (simp add: base'_def)
  have "tag_frame_id base' = f" using Suc.prems(2) by (simp add: base'_def)
  then have rest: "list_all (task_for kinds f) (subcarrier_events ty (f mod 2) b base' k)"
    using Suc.IH Suc.prems(1) by blast
  have "task_for kinds f (ty, f mod 2, [base])"
    using Suc.prems by (simp add: task_for_def task_type_def task_qid_def task_tags_def)
  then show ?case unfolding eq using rest by simp
qed

lemma ScheduleSubcarriers_events_task_for:
  assumes "ScheduleSubcarriers_events cfg ty f sy = Some ts" "ty \<in> kinds"
  shows "list_all (task_for kinds f) ts"
  using assms
  by (auto simp: ScheduleSubcarriers_events_def subcarrier_events_task_for split: if_splits)

lemma ScheduleCodeblocks_events_task_for:
  "ty \<in> kinds \<Longrightarrow> list_all (task_for kinds f) (ScheduleCodeblocks_events cfg ty dir f sy)"
  by (simp add: ScheduleCodeblocks_events_def Let_def block_events_task_for)

lemma ScheduleAntennas_events_task_for:
  "ty \<in> kinds \<Longrightarrow> list_all (task_for kinds f) (ScheduleAntennas_events cfg ty f sy)"
  by (simp add: ScheduleAntennas_events_def block_events_task_for)

lemma ScheduleSubcarriers_step:
  assumes "ScheduleSubcarriers cfg ty f sy s = Some s'" "ty \<in> kinds"
  shows "sched_step (task_for kinds f) s s'"
proof -
  from assms(1) obtain ts where ts: "ScheduleSubcarriers_events cfg ty f sy = Some ts"
    and s': "s' = enqueue_tasks ts s"
    by (auto simp: ScheduleSubcarriers_def)
  have "list_all (task_for kinds f) ts"
    using ts assms(2) by (rule ScheduleSubcarriers_events_task_for)
  then show ?thesis unfolding s' enqueue_tasks_def by (rule sched_step_tasks)
qed

lemma ScheduleCodeblocks_step:
  assumes "ScheduleCodeblocks cfg ty dir f sy s = Some s'" "ty \<in> kinds"
  shows "sched_step (task_for kinds f) s s'"
proof -
  from assms(1) have s': "s' = enqueue_tasks (ScheduleCodeblocks_events cfg ty dir f sy) s"
    by (auto simp: ScheduleCodeblocks_def split: if_splits)
  have "list_all (task_for kinds f) (ScheduleCodeblocks_events cfg ty dir f sy)"
    using assms(2) by (rule ScheduleCodeblocks_events_task_for)
  then show ?thesis unfolding s' enqueue_tasks_def by (rule sched_step_tasks)
qed

lemma ScheduleAntennas_step:
  assumes "ScheduleAntennas cfg ty f sy s = Some s'" "ty \<in> kinds"
  shows "sched_step (task_for kinds f) s s'"
proof -
  from assms(1) have s': "s' = enqueue_tasks (ScheduleAntennas_events cfg ty f sy) s"
    by (auto simp: ScheduleAntennas_def split: if_splits)
  have "list_all (task_for kinds f) (ScheduleAntennas_events cfg ty f sy)"
    using assms(2) by (rule ScheduleAntennas_events_task_for)
  then show ?thesis unfolding s' enqueue_tasks_def by (rule sched_step_tasks)
qed

lemma ScheduleBroadCastSymbols_step:
  "ty \<in> kinds \<Longrightarrow> sched_step (task_for kinds f) s (ScheduleBroadCastSymbols ty f s)"
  unfolding ScheduleBroadCastSymbols_def EnqueueEventTaskQueue_def
  by (rule sched_step_tasks)
     (simp add: task_for_def task_type_def task_qid_def task_tags_def)

lemma ScheduleDownlinkProcessing_step:
  assumes "ScheduleDownlinkProcessing cfg f s = Some s'"
  shows "sched_step (task_for dl_kinds f) s s'"
proof -
  let ?R = "sched_step (task_for dl_kinds f)"
  let ?s1 = "if NumDlControlSyms cfg > 0 then ScheduleBroadCastSymbols kBroadcast f s else s"
  from assms obtain s2 where
    s2: "fold_opt (dl_pilot_symbol cfg f) [0..<ClientDlPilotSymbols cfg] ?s1 = Some s2"
    and s3: "fold_opt (dl_data_symbol cfg f) [ClientDlPilotSymbols cfg..<NumDLSyms cfg] s2 = Some s'"
    unfolding ScheduleDownlinkProcessing_def by (auto simp: bind_eq_Some_conv)
  have "?R s (ScheduleBroadCastSymbols kBroadcast f s)"
    by (rule ScheduleBroadCastSymbols_step) (simp add: dl_kinds_def)
  then have r1: "?R s ?s1"
    by (simp add: sched_step_refl)
  have r2: "?R ?s1 s2"
  proof (rule fold_opt_rel [OF _ sched_step_refl sched_step_trans s2])
    fix x a b
    assume h: "dl_pilot_symbol cfg f x a = Some b"
    show "?R a b"
    proof (cases "beam_last_frame a = f")
      case True
      with h have "ScheduleSubcarriers cfg kPrecode f (GetDLSymbol cfg x) a = Some b"
        by (simp add: dl_pilot_symbol_def)
      then show ?thesis by (rule ScheduleSubcarriers_step) (simp add: dl_kinds_def)
    next
      case False
      with h obtain v where "b = a\<lparr>encode_cur_frame_for_symbol := v\<rparr>"
        by (auto simp: dl_pilot_symbol_def)
      then show ?thesis by (simp add: sched_step_vec)
    qed
  qed
  have r3: "?R s2 s'"
  proof (rule fold_opt_rel [OF _ sched_step_refl sched_step_trans s3])
    fix x a b
    assume "dl_data_symbol cfg f x a = Some b"
    then have "ScheduleCodeblocks cfg kEncode kDownlink f (GetDLSymbol cfg x) a = Some b"
      by (simp add: dl_data_symbol_def)
    then show "?R a b"
      by (rule ScheduleCodeblocks_step) (simp add: dl_kinds_def)
  qed
  show ?thesis by (rule sched_step_trans [OF sched_step_trans [OF r1 r2] r3])
qed

section \<open>The master loop alternates between its two sources\<close>

lemma alternation_Suc:
  "alternation (Suc n) = alternation n @ [if even n then FetchStreamerEvent else FetchDoerEvent]"
  by (simp add: alternation_def)

lemma Start_iteration_inv:
  assumes "Start_iteration cfg env m = Some m'" "loop_inv m"
  shows "loop_inv m'"
  using assms
  by (auto simp: Start_iteration_def loop_inv_def Let_def alternation_Suc
           split: option.splits prod.splits)

lemma Start_loop_inv:
  "loop_inv m \<Longrightarrow>
   Start_loop cfg env fuel m = Exited m' \<or> Start_loop cfg env fuel m = OutOfFuel m' \<Longrightarrow>
   loop_inv m'"
proof (induction fuel arbitrary: m)
  case 0
  then show ?case by simp
next
  case (Suc n)
  show ?case
  proof (cases "running (agora m) \<and> \<not> GotExitSignal env (iteration m) \<and> \<not> finish m")
    case True
    then obtain m1 where m1: "Start_iteration cfg env m = Some m1"
      using Suc.prems(2) by (auto split: option.splits)
    have "loop_inv m1" using Start_iteration_inv [OF m1 Suc.prems(1)] .
    moreover have "Start_loop cfg env n m1 = Exited m' \<or> Start_loop cfg env n m1 = OutOfFuel m'"
      using Suc.prems(2) True m1 by simp
    ultimately show ?thesis using Suc.IH by blast
  next
    case False
    then show ?thesis using Suc.prems by auto
  qed
qed

lemma loop_inv_new: "loop_inv (Master_new a)"
  by (simp add: loop_inv_def Master_new_def alternation_def)

text \<open>
  Claim C6. In every iteration of the master loop the source polled alternates strictly
  between the streamer queues and the worker completion queue: whenever the loop has exited or
  is cut after some number of iterations, the sources polled so far are one per iteration,
  the streamer in the even iterations and the completion queue in the odd ones, so no two
  consecutive iterations poll the same source.
\<close>

theorem master_loop_alternates:
  assumes "Start_loop cfg env fuel (Master_new a) = Exited m
           \<or> Start_loop cfg env fuel (Master_new a) = OutOfFuel m"
  shows "length (polled m) = iteration m
         \<and> (\<forall>i. i < length (polled m) \<longrightarrow>
                polled m ! i = (if even i then FetchStreamerEvent else FetchDoerEvent))
         \<and> (\<forall>i. Suc i < length (polled m) \<longrightarrow> polled m ! i \<noteq> polled m ! Suc i)"
proof -
  have "loop_inv m" using Start_loop_inv [OF loop_inv_new assms] .
  then have p: "polled m = alternation (iteration m)" by (simp add: loop_inv_def)
  show ?thesis unfolding p by (simp add: alternation_def)
qed

lemmas idle_run_defs = Start_iteration_def Master_new_def Agora_new_def env_idle_def
  CheckIncrementScheduleFrame_def kNone_def kProcessingComplete_def kUplinkComplete_def
  kDownlinkComplete_def cfg_ul_def Let_def

theorem master_loop_alternates_witness:
  "\<exists>m. (Start_loop cfg_ul env_idle 3 (Master_new (Agora_new cfg_ul)) = Exited m
         \<or> Start_loop cfg_ul env_idle 3 (Master_new (Agora_new cfg_ul)) = OutOfFuel m)
       \<and> polled m = [FetchStreamerEvent, FetchDoerEvent, FetchStreamerEvent]
       \<and> length (polled m) = iteration m
       \<and> (\<forall>i. Suc i < length (polled m) \<longrightarrow> polled m ! i \<noteq> polled m ! Suc i)"
proof -
  have "\<exists>m. Start_loop cfg_ul env_idle 3 (Master_new (Agora_new cfg_ul)) = OutOfFuel m
             \<and> polled m = [FetchStreamerEvent, FetchDoerEvent, FetchStreamerEvent]"
    by (simp add: numeral_3_eq_3 idle_run_defs)
  then obtain m where
    m: "Start_loop cfg_ul env_idle 3 (Master_new (Agora_new cfg_ul)) = OutOfFuel m"
    and p: "polled m = [FetchStreamerEvent, FetchDoerEvent, FetchStreamerEvent]"
    by blast
  have "Start_loop cfg_ul env_idle 3 (Master_new (Agora_new cfg_ul)) = Exited m
        \<or> Start_loop cfg_ul env_idle 3 (Master_new (Agora_new cfg_ul)) = OutOfFuel m"
    using m by simp
  from master_loop_alternates [OF this] this p show ?thesis by blast
qed

section \<open>The worker's choice of bucket\<close>

lemma try_kernels_empty:
  "\<forall>ty \<in> set tys. task_queues q ty qid = [] \<Longrightarrow> try_kernels tys qid q = (False, q)"
  by (induction tys) (auto simp: TryLaunch_def)

lemma try_kernels_found:
  "\<exists>ty \<in> set tys. task_queues q ty qid \<noteq> [] \<Longrightarrow> fst (try_kernels tys qid q) = True"
  by (induction tys) (auto simp: TryLaunch_def split: list.splits)

lemma WorkerIteration_launched:
  assumes "empty_queue w" "\<exists>ty \<in> set (events_vec cfg). task_queues q ty (cur_qid w) \<noteq> []"
  shows "cur_qid (fst (WorkerIteration cfg sf pf (w, q))) = cur_qid w
         \<and> empty_queue_itrs (fst (WorkerIteration cfg sf pf (w, q))) = empty_queue_itrs w
         \<and> empty_queue (fst (WorkerIteration cfg sf pf (w, q)))"
  using try_kernels_found [OF assms(2)]
  by (auto simp: WorkerIteration_def Let_def split: prod.splits)

lemma WorkerIteration_empty:
  assumes "empty_queue w" "\<forall>ty \<in> set (events_vec cfg). task_queues q ty (cur_qid w) = []"
  shows "WorkerIteration cfg sf pf (w, q) =
          (if empty_queue_itrs w + 1 = 5
           then w\<lparr>empty_queue_itrs := 0,
                  cur_qid := (if sf \<noteq> pf then cur_qid w XOR 1 else sf AND 1)\<rparr>
           else w\<lparr>empty_queue_itrs := empty_queue_itrs w + 1\<rparr>, q)"
  using try_kernels_empty [OF assms(2)] assms(1)
  by (auto simp: WorkerIteration_def Let_def)

lemma five_empty_iterations:
  assumes "empty_queue w" "\<forall>ty qid. task_queues q ty qid = []" "empty_queue_itrs w < 5"
  shows "((WorkerIteration cfg sf pf) ^^ 5) (w, q) =
           (w\<lparr>cur_qid := (if sf \<noteq> pf then cur_qid w XOR 1 else sf AND 1)\<rparr>, q)"
proof -
  have step: "\<And>w'. empty_queue w' \<Longrightarrow> WorkerIteration cfg sf pf (w', q) =
          (if empty_queue_itrs w' + 1 = 5
           then w'\<lparr>empty_queue_itrs := 0,
                  cur_qid := (if sf \<noteq> pf then cur_qid w' XOR 1 else sf AND 1)\<rparr>
           else w'\<lparr>empty_queue_itrs := empty_queue_itrs w' + 1\<rparr>, q)"
    using assms(2) by (intro WorkerIteration_empty) auto
  have cases: "empty_queue_itrs w = 0 \<or> empty_queue_itrs w = 1 \<or> empty_queue_itrs w = 2
     \<or> empty_queue_itrs w = 3 \<or> empty_queue_itrs w = 4" using assms(3) by arith
  show ?thesis
    using cases assms(1)
    by (elim disjE) (simp_all add: numeral_eq_Suc step)
qed

text \<open>
  Claim C7, as the code has it. An iteration of the worker loop that launches a task from
  the current bucket leaves the bucket and the count of empty iterations as they are. An
  iteration that finds every kernel sub-queue of the current bucket empty adds one to the
  count; when the count reaches five it is set back to zero and the bucket is chosen anew:
  the other bucket when the schedule cursor and the processing cursor differ, the bucket of
  the schedule frame's parity when they are equal. So five consecutive empty iterations with
  steady cursors make exactly this choice once.
\<close>

theorem worker_bucket_choice:
  assumes "empty_queue w" "empty_queue_itrs w < 5"
  shows "((\<exists>ty \<in> set (events_vec cfg). task_queues q ty (cur_qid w) \<noteq> []) \<longrightarrow>
            cur_qid (fst (WorkerIteration cfg sf pf (w, q))) = cur_qid w
            \<and> empty_queue_itrs (fst (WorkerIteration cfg sf pf (w, q))) = empty_queue_itrs w)
         \<and> ((\<forall>ty \<in> set (events_vec cfg). task_queues q ty (cur_qid w) = []) \<longrightarrow>
            WorkerIteration cfg sf pf (w, q) =
              (if empty_queue_itrs w + 1 = 5
               then w\<lparr>empty_queue_itrs := 0,
                      cur_qid := (if sf \<noteq> pf then cur_qid w XOR 1 else sf AND 1)\<rparr>
               else w\<lparr>empty_queue_itrs := empty_queue_itrs w + 1\<rparr>, q))
         \<and> ((\<forall>ty qid. task_queues q ty qid = []) \<longrightarrow>
            ((WorkerIteration cfg sf pf) ^^ 5) (w, q) =
              (w\<lparr>cur_qid := (if sf \<noteq> pf then cur_qid w XOR 1 else sf AND 1)\<rparr>, q))"
  using WorkerIteration_launched [OF assms(1), of cfg q sf pf]
    WorkerIteration_empty [OF assms(1), of cfg q sf pf]
    five_empty_iterations [OF assms(1) _ assms(2), of q cfg sf pf]
  by blast

text \<open>
  A worker that starts while both cursors are at frame 0 and finds every queue empty five
  times in a row is still on bucket 0: it has not flipped to the other bucket.
\<close>

theorem worker_no_flip_counterexample:
  "fst (try_kernels (events_vec cfg_ul) (cur_qid Worker_new) empty_Queues) = False
   \<and> cur_qid (fst ((WorkerIteration cfg_ul 0 0 ^^ 5) (Worker_new, empty_Queues)))
       = cur_qid Worker_new"
  by (simp add: numeral_eq_Suc WorkerIteration_def Worker_new_def empty_Queues_def
      events_vec_def cfg_ul_def TryLaunch_def Let_def)

theorem worker_bucket_choice_witness:
  "empty_queue Worker_new \<and> empty_queue_itrs Worker_new < 5
   \<and> (\<forall>ty qid. task_queues empty_Queues ty qid = [])
   \<and> (WorkerIteration cfg_ul 1 0 ^^ 5) (Worker_new, empty_Queues)
        = (Worker_new\<lparr>cur_qid := 1\<rparr>, empty_Queues)
   \<and> (WorkerIteration cfg_ul 0 0 ^^ 5) (Worker_new, empty_Queues)
        = (Worker_new\<lparr>cur_qid := 0\<rparr>, empty_Queues)"
proof -
  have a: "empty_queue Worker_new" "empty_queue_itrs Worker_new < 5"
    by (simp_all add: Worker_new_def)
  have e: "\<forall>ty qid. task_queues empty_Queues ty qid = []"
    by (simp add: empty_Queues_def)
  have q: "cur_qid Worker_new = 0" by (simp add: Worker_new_def)
  from worker_bucket_choice [OF a, of cfg_ul empty_Queues 1 0]
       worker_bucket_choice [OF a, of cfg_ul empty_Queues 0 0] a e
  show ?thesis by (simp add: q)
qed

section \<open>Evaluating concrete runs\<close>

text \<open>The loops count down on natural numbers; these equations let them run on numerals.\<close>

lemma fft_pop_tags_numeral:
  "fft_pop_tags cfg slot (numeral k) s = fft_pop_tags cfg slot (Suc (pred_numeral k)) s"
  by (simp only: numeral_eq_Suc)

lemma fft_blocks_numeral:
  "fft_blocks cfg slot qid (numeral k) s = fft_blocks cfg slot qid (Suc (pred_numeral k)) s"
  by (simp only: numeral_eq_Suc)

lemma block_events_numeral:
  "block_events ty qid r n base (numeral k) = block_events ty qid r n base (Suc (pred_numeral k))"
  by (simp only: numeral_eq_Suc)

lemma subcarrier_events_numeral:
  "subcarrier_events ty qid b base (numeral k) = subcarrier_events ty qid b base (Suc (pred_numeral k))"
  by (simp only: numeral_eq_Suc)

lemma release_deferred_numeral:
  "release_deferred cfg (numeral k) s = release_deferred cfg (Suc (pred_numeral k)) s"
  by (simp only: numeral_eq_Suc)

lemma ifft_tx_loop_numeral:
  "ifft_tx_loop cfg f i (numeral k) s = ifft_tx_loop cfg f i (Suc (pred_numeral k)) s"
  by (simp only: numeral_eq_Suc)

lemmas run_defs =
  fft_pop_tags_numeral fft_blocks_numeral block_events_numeral subcarrier_events_numeral
  release_deferred_numeral ifft_tx_loop_numeral
  handle_batch.simps HandleEvents_def HandleEvents_switch_def HandlePacketRX_def
  UpdateRxCounters_def defer_or_schedule_def ScheduleDownlinkProcessing_def dl_pilot_symbol_def
  dl_data_symbol_def TryScheduleFft_def
  fft_blocks.simps fft_pop_tags.simps fft_created_tick_def CheckIncrementScheduleFrame_def
  EnqueueEventTaskQueue_def enqueue_tasks_def Agora_new_def Init_def num_rx_pkts_per_frame_def
  num_pilot_pkts_per_frame_def num_reciprocity_pkts_per_frame_def size_sub_def SIZE_MAX_def
  kNone_def kUplinkComplete_def kDownlinkComplete_def kProcessingComplete_def
  ScheduleBroadCastSymbols_def fold_opt.simps for_tags.simps Let_def
  HandleEventFft_def HandleBeamTag_def HandleDemul_def demul_symbol_closed_def
  demul_frame_closed_def HandleDecode_def HandlePacketToMac_def
  HandlePacketFromMac_def HandleEncodeTag_def HandlePrecode_def HandleIfftTag_def
  ifft_symbol_closed_def ifft_tx_loop.simps HandleBroadcast_def HandlePacketTX_def
  CheckFrameComplete_def frame_complete_cond_def reset_terminal_counters_def
  release_deferred.simps CompleteTask_def CompleteSymbol_def CompleteTask1_def Reset_def
  IsLastSymbol_def GetSymbolCount_def vec_at_def vec_set_def ev_tags_def
  ScheduleSubcarriers_def ScheduleSubcarriers_events_def subcarrier_events.simps
  ScheduleCodeblocks_def ScheduleCodeblocks_events_def ScheduleAntennas_def
  ScheduleAntennas_events_def block_events.simps num_blocks_of_def ScheduleAntennasTX_def
  ScheduleUsers_def SendSnrReport_def mk_tag_def mk_event_def frame_rx_def frame_done_def

lemma t_deferral:
  "map_option (\<lambda>(s, f). (encode_deferral s, log_info s, cur_proc_frame_id s, f))
     (handle_batch cfg_ul trace_deferral (Agora_new cfg_ul))
   = Some ([], [Deferring 3, Deferring 2, SchedulingDeferred 3 2, SchedulingDeferred 2 2], 2, False)"
  by (simp add: run_defs trace_deferral_def cfg_ul_def)

section \<open>Releasing deferred frames\<close>

lemma released_0: "released 0 s s"
  unfolding released_def
  by (rule exI [of _ "[]"], rule exI [of _ "encode_cur_frame_for_symbol s"]) simp

lemma release_deferred_char:
  "release_deferred cfg k s = Some s' \<Longrightarrow>
   \<exists>n. n \<le> k \<and> n \<le> length (encode_deferral s) \<and> released n s s'
       \<and> (\<forall>d \<in> set (take n (encode_deferral s)).
             cur_proc_frame_id s \<le> d \<and> d < cur_proc_frame_id s + kScheduleQueues cfg)
       \<and> (n = k \<or> n = length (encode_deferral s)
          \<or> \<not> encode_deferral s ! n < cur_proc_frame_id s + kScheduleQueues cfg)"
proof (induction k arbitrary: s)
  case 0
  then have "s' = s" by simp
  then show ?case using released_0 by (intro exI [of _ 0]) simp
next
  case (Suc k)
  show ?case
  proof (cases "encode_deferral s")
    case Nil
    with Suc.prems have "s' = s" by simp
    then show ?thesis using released_0 Nil by (intro exI [of _ 0]) simp
  next
    case (Cons d rest)
    show ?thesis
    proof (cases "d < cur_proc_frame_id s + kScheduleQueues cfg")
      case False
      with Suc.prems Cons have "s' = s" by simp
      then show ?thesis using released_0 Cons False by (intro exI [of _ 0]) simp
    next
      case True
      define sL where "sL = s\<lparr>log_info := log_info s @ [SchedulingDeferred d (cur_proc_frame_id s)]\<rparr>"
      from Suc.prems Cons True have ge: "cur_proc_frame_id s \<le> d"
        by (auto split: if_splits)
      from Suc.prems Cons True ge obtain s1 where
        s1: "ScheduleDownlinkProcessing cfg d sL = Some s1"
        and rec: "release_deferred cfg k (s1\<lparr>encode_deferral := tl (encode_deferral s1)\<rparr>) = Some s'"
        by (auto simp: sL_def split: option.splits)
      from ScheduleDownlinkProcessing_step [OF s1] obtain ts1 v1 where
        s1_eq: "s1 = sL\<lparr>task_queue := task_queue sL @ ts1, encode_cur_frame_for_symbol := v1\<rparr>"
        and ts1: "list_all (task_for dl_kinds d) ts1"
        unfolding sched_step_def by blast
      define s2 where "s2 = s1\<lparr>encode_deferral := tl (encode_deferral s1)\<rparr>"
      have f2: "encode_deferral s2 = rest" "cur_proc_frame_id s2 = cur_proc_frame_id s"
        "log_info s2 = log_info s @ [SchedulingDeferred d (cur_proc_frame_id s)]"
        "task_queue s2 = task_queue s @ ts1"
        by (simp_all add: s2_def s1_eq sL_def Cons)
      from Suc.IH [OF rec [folded s2_def]] obtain n where
        n: "n \<le> k" "n \<le> length rest" and rel: "released n s2 s'"
        and bnd: "\<forall>d \<in> set (take n rest).
             cur_proc_frame_id s \<le> d \<and> d < cur_proc_frame_id s + kScheduleQueues cfg"
        and mx: "n = k \<or> n = length rest
          \<or> \<not> rest ! n < cur_proc_frame_id s + kScheduleQueues cfg"
        unfolding f2 by blast
      from rel obtain ts v where
        s'_eq: "s' = s2\<lparr>task_queue := task_queue s2 @ ts, encode_cur_frame_for_symbol := v,
                      encode_deferral := drop n rest,
                      log_info := log_info s2 @
                        map (\<lambda>d. SchedulingDeferred d (cur_proc_frame_id s)) (take n rest)\<rparr>"
        and ts: "list_all (\<lambda>tk. \<exists>d \<in> set (take n rest). task_for dl_kinds d tk) ts"
        unfolding released_def f2 by blast
      have eq: "s' = s\<lparr>task_queue := task_queue s @ (ts1 @ ts), encode_cur_frame_for_symbol := v,
                      encode_deferral := drop (Suc n) (encode_deferral s),
                      log_info := log_info s @
                        map (\<lambda>d. SchedulingDeferred d (cur_proc_frame_id s))
                            (take (Suc n) (encode_deferral s))\<rparr>"
        unfolding s'_eq f2 by (simp add: s2_def s1_eq sL_def Cons)
      have all: "list_all (\<lambda>tk. \<exists>d \<in> set (take (Suc n) (encode_deferral s)). task_for dl_kinds d tk)
                   (ts1 @ ts)"
        using ts1 ts by (auto simp: Cons list_all_iff)
      have "released (Suc n) s s'"
        unfolding released_def using eq all by blast
      moreover have "\<forall>d \<in> set (take (Suc n) (encode_deferral s)).
             cur_proc_frame_id s \<le> d \<and> d < cur_proc_frame_id s + kScheduleQueues cfg"
        using bnd True ge by (simp add: Cons)
      moreover have "Suc n = Suc k \<or> Suc n = length (encode_deferral s)
          \<or> \<not> encode_deferral s ! Suc n < cur_proc_frame_id s + kScheduleQueues cfg"
        using mx by (simp add: Cons)
      ultimately show ?thesis using n by (intro exI [of _ "Suc n"]) (simp add: Cons)
    qed
  qed
qed

section \<open>Frame retirement\<close>

lemma released_fields:
  assumes "released n a b"
  shows "cur_sche_frame_id b = cur_sche_frame_id a" "cur_proc_frame_id b = cur_proc_frame_id a"
    "running b = running a" "tx_queue b = tx_queue a"
    "encode_deferral b = drop n (encode_deferral a)"
    "log_info b = log_info a @ map (\<lambda>d. SchedulingDeferred d (cur_proc_frame_id a))
                                 (take n (encode_deferral a))"
    "\<exists>ts. task_queue b = task_queue a @ ts
          \<and> list_all (\<lambda>tk. \<exists>d \<in> set (take n (encode_deferral a)). task_for dl_kinds d tk) ts"
  using assms unfolding released_def by auto

lemma reset_terminal_counters_fields:
  "cur_sche_frame_id (reset_terminal_counters cfg f s) = cur_sche_frame_id s"
  "cur_proc_frame_id (reset_terminal_counters cfg f s) = cur_proc_frame_id s"
  "running (reset_terminal_counters cfg f s) = running s"
  "tx_queue (reset_terminal_counters cfg f s) = tx_queue s"
  "task_queue (reset_terminal_counters cfg f s) = task_queue s"
  "encode_deferral (reset_terminal_counters cfg f s) = encode_deferral s"
  "log_info (reset_terminal_counters cfg f s) = log_info s"
  by (simp_all add: reset_terminal_counters_def Let_def)

text \<open>The state in which \<open>CheckFrameComplete\<close> runs its release loop.\<close>

lemma CheckFrameComplete_char:
  assumes "CheckFrameComplete cfg f s = Some (s', fin)"
  shows "(\<not> frame_complete_cond cfg f s \<longrightarrow> s' = s \<and> \<not> fin)
       \<and> (frame_complete_cond cfg f s \<longrightarrow>
            (fin \<longleftrightarrow> f = size_sub (FramesToTest cfg) 1)
          \<and> (\<exists>n. n \<le> kScheduleQueues cfg \<and> n \<le> length (encode_deferral s) \<and> (fin \<longrightarrow> n = 0)
               \<and> released n ((reset_terminal_counters cfg f s)
                                \<lparr>cur_proc_frame_id := cur_proc_frame_id s + 1\<rparr>) s'
               \<and> (\<forall>d \<in> set (take n (encode_deferral s)).
                     cur_proc_frame_id s + 1 \<le> d
                     \<and> d < cur_proc_frame_id s + 1 + kScheduleQueues cfg)
               \<and> (fin \<or> n = kScheduleQueues cfg \<or> n = length (encode_deferral s)
                  \<or> \<not> encode_deferral s ! n < cur_proc_frame_id s + 1 + kScheduleQueues cfg)))"
proof (cases "frame_complete_cond cfg f s")
  case False
  with assms show ?thesis by (simp add: CheckFrameComplete_def)
next
  case True
  define s2 where "s2 = (reset_terminal_counters cfg f s)
                          \<lparr>cur_proc_frame_id := cur_proc_frame_id s + 1\<rparr>"
  have f2: "encode_deferral s2 = encode_deferral s" "cur_proc_frame_id s2 = cur_proc_frame_id s + 1"
    by (simp_all add: s2_def reset_terminal_counters_fields)
  show ?thesis
  proof (cases "f = size_sub (FramesToTest cfg) 1")
    case last: True
    with assms True have "s' = s2" "fin"
      by (simp_all add: CheckFrameComplete_def Let_def s2_def reset_terminal_counters_fields)
    then show ?thesis using True last released_0 [of s2]
      by (auto simp: s2_def intro!: exI [of _ 0])
  next
    case notlast: False
    with assms True have rel: "release_deferred cfg (kScheduleQueues cfg) s2 = Some s'"
      and nf: "\<not> fin"
      by (auto simp: CheckFrameComplete_def Let_def s2_def reset_terminal_counters_fields)
    from release_deferred_char [OF rel] obtain n where
      "n \<le> kScheduleQueues cfg" "n \<le> length (encode_deferral s)" "released n s2 s'"
      "\<forall>d \<in> set (take n (encode_deferral s)).
          cur_proc_frame_id s + 1 \<le> d \<and> d < cur_proc_frame_id s + 1 + kScheduleQueues cfg"
      "n = kScheduleQueues cfg \<or> n = length (encode_deferral s)
          \<or> \<not> encode_deferral s ! n < cur_proc_frame_id s + 1 + kScheduleQueues cfg"
      unfolding f2 by blast
    then have "\<exists>n. n \<le> kScheduleQueues cfg \<and> n \<le> length (encode_deferral s) \<and> (fin \<longrightarrow> n = 0)
               \<and> released n s2 s'
               \<and> (\<forall>d \<in> set (take n (encode_deferral s)).
                     cur_proc_frame_id s + 1 \<le> d
                     \<and> d < cur_proc_frame_id s + 1 + kScheduleQueues cfg)
               \<and> (fin \<or> n = kScheduleQueues cfg \<or> n = length (encode_deferral s)
                  \<or> \<not> encode_deferral s ! n < cur_proc_frame_id s + 1 + kScheduleQueues cfg)"
      using nf by blast
    then show ?thesis using True notlast nf unfolding s2_def by simp
  qed
qed

text \<open>
  Claim C3, as the code has it. A call of \<open>CheckFrameComplete\<close> releases the first
  \<open>n\<close> frames of the deferral queue, for some \<open>n\<close> of at most \<open>kScheduleQueues\<close>: they
  are popped from the front in queue (arrival) order, one log line each is written in that
  order, every released frame is below the advanced processing cursor plus
  \<open>kScheduleQueues\<close>, and the tasks enqueued are downlink tasks of released frames. A frame
  is released only in a call that retires a frame, advances the cursor by one and does not
  end the run.
\<close>

theorem deferred_release_on_retirement:
  assumes "CheckFrameComplete cfg frame_id s = Some (s', finished)"
  shows "\<exists>n. n \<le> kScheduleQueues cfg \<and> n \<le> length (encode_deferral s)
        \<and> encode_deferral s' = drop n (encode_deferral s)
        \<and> log_info s' = log_info s @ map (\<lambda>d. SchedulingDeferred d (cur_proc_frame_id s + 1))
                                         (take n (encode_deferral s))
        \<and> (\<forall>d \<in> set (take n (encode_deferral s)).
              d < cur_proc_frame_id s + 1 + kScheduleQueues cfg)
        \<and> (\<exists>ts. task_queue s' = task_queue s @ ts
               \<and> list_all (\<lambda>tk. \<exists>d \<in> set (take n (encode_deferral s)). task_for dl_kinds d tk) ts)
        \<and> (0 < n \<longrightarrow> frame_complete_cond cfg frame_id s \<and> \<not> finished
                      \<and> cur_proc_frame_id s' = cur_proc_frame_id s + 1)"
proof (cases "frame_complete_cond cfg frame_id s")
  case False
  with CheckFrameComplete_char [OF assms] have "s' = s" by simp
  then show ?thesis by (intro exI [of _ 0]) simp
next
  case True
  define s2 where "s2 = (reset_terminal_counters cfg frame_id s)
                          \<lparr>cur_proc_frame_id := cur_proc_frame_id s + 1\<rparr>"
  have f2: "encode_deferral s2 = encode_deferral s" "cur_proc_frame_id s2 = cur_proc_frame_id s + 1"
    "log_info s2 = log_info s" "task_queue s2 = task_queue s"
    by (simp_all add: s2_def reset_terminal_counters_fields)
  from CheckFrameComplete_char [OF assms] True obtain n where
    n: "n \<le> kScheduleQueues cfg" "n \<le> length (encode_deferral s)" "finished \<longrightarrow> n = 0"
    and rel: "released n s2 s'"
    and bnd: "\<forall>d \<in> set (take n (encode_deferral s)).
                 d < cur_proc_frame_id s + 1 + kScheduleQueues cfg"
    unfolding s2_def by auto
  from released_fields [OF rel] n bnd True show ?thesis
    unfolding f2 by (intro exI [of _ n]) auto
qed

text \<open>
  In the run \<open>trace_deferral\<close> the last event retires frame 1; before it frames 3 and 2
  wait in the deferral queue, after it both have been released: one retirement has popped two
  frames.
\<close>

theorem two_frames_released_counterexample:
  "deferral_view (handle_batch cfg_ul (butlast trace_deferral) (Agora_new cfg_ul))
     = Some ([3, 2], [Deferring 3, Deferring 2], 1)
   \<and> deferral_view (handle_batch cfg_ul trace_deferral (Agora_new cfg_ul))
     = Some ([], [Deferring 3, Deferring 2, SchedulingDeferred 3 2, SchedulingDeferred 2 2], 2)"
  by (simp add: run_defs trace_deferral_def cfg_ul_def deferral_view_def)

theorem deferred_release_on_retirement_witness:
  "\<exists>s' n. CheckFrameComplete cfg_ul 0 state_deferred = Some (s', False)
     \<and> encode_deferral state_deferred = [2, 5] \<and> encode_deferral s' = [5]
     \<and> n \<le> kScheduleQueues cfg_ul \<and> encode_deferral s' = drop n (encode_deferral state_deferred)
     \<and> log_info s' = log_info state_deferred
          @ map (\<lambda>d. SchedulingDeferred d (cur_proc_frame_id state_deferred + 1))
                (take n (encode_deferral state_deferred))"
proof -
  have "\<exists>s'. CheckFrameComplete cfg_ul 0 state_deferred = Some (s', False)
             \<and> encode_deferral state_deferred = [2, 5] \<and> encode_deferral s' = [5]"
    by (simp add: run_defs state_deferred_def cfg_ul_def)
  then obtain s' where r: "CheckFrameComplete cfg_ul 0 state_deferred = Some (s', False)"
    and d: "encode_deferral state_deferred = [2, 5]" "encode_deferral s' = [5]"
    by blast
  from deferred_release_on_retirement [OF r] r d show ?thesis by blast
qed

section \<open>The frame window\<close>

lemma CheckIncrementScheduleFrame_cursors:
  "cur_proc_frame_id (CheckIncrementScheduleFrame cfg f c s) = cur_proc_frame_id s"
  "cur_sche_frame_id (CheckIncrementScheduleFrame cfg f c s) =
     (if schedule_process_flags s + c = kProcessingComplete
      then cur_sche_frame_id s + 1 else cur_sche_frame_id s)"
  by (simp_all add: CheckIncrementScheduleFrame_def Let_def)

lemma CheckFrameComplete_cursors:
  assumes "CheckFrameComplete cfg f s = Some (s', fin)"
  shows "cur_sche_frame_id s' = cur_sche_frame_id s"
    and "cur_proc_frame_id s' =
           (if frame_complete_cond cfg f s then cur_proc_frame_id s + 1 else cur_proc_frame_id s)"
proof -
  show "cur_sche_frame_id s' = cur_sche_frame_id s"
  proof (cases "frame_complete_cond cfg f s")
    case False
    with CheckFrameComplete_char [OF assms] show ?thesis by simp
  next
    case True
    with CheckFrameComplete_char [OF assms] obtain n where
      "released n ((reset_terminal_counters cfg f s)
                     \<lparr>cur_proc_frame_id := cur_proc_frame_id s + 1\<rparr>) s'"
      by blast
    from released_fields(1) [OF this] show ?thesis
      by (simp add: reset_terminal_counters_fields)
  qed
  show "cur_proc_frame_id s' =
           (if frame_complete_cond cfg f s then cur_proc_frame_id s + 1 else cur_proc_frame_id s)"
  proof (cases "frame_complete_cond cfg f s")
    case False
    with CheckFrameComplete_char [OF assms] show ?thesis by simp
  next
    case True
    with CheckFrameComplete_char [OF assms] obtain n where
      "released n ((reset_terminal_counters cfg f s)
                     \<lparr>cur_proc_frame_id := cur_proc_frame_id s + 1\<rparr>) s'"
      by blast
    from released_fields(2) [OF this] True show ?thesis by simp
  qed
qed

text \<open>
  Claim C1, as the code has it. \<open>CheckIncrementScheduleFrame\<close> leaves the processing
  cursor alone and advances the schedule cursor by one exactly when both direction flags are
  set; \<open>CheckFrameComplete\<close> leaves the schedule cursor alone and advances the processing
  cursor by one exactly when the frame's terminal counters are closed. So the first keeps
  \<open>cur_proc \<le> cur_sche\<close> and keeps the whole window bound when the schedule cursor is not
  at the last frame of the window on entry; the second keeps \<open>cur_sche < cur_proc + W\<close> and
  keeps the whole window bound when the processing cursor is behind the schedule cursor on
  entry. Neither function tests these entry conditions.
\<close>

theorem window_bound_steps:
  "cur_proc_frame_id (CheckIncrementScheduleFrame cfg f c s) = cur_proc_frame_id s
   \<and> cur_sche_frame_id (CheckIncrementScheduleFrame cfg f c s) =
       (if schedule_process_flags s + c = kProcessingComplete
        then cur_sche_frame_id s + 1 else cur_sche_frame_id s)
   \<and> (window_bound cfg s \<longrightarrow>
        cur_proc_frame_id (CheckIncrementScheduleFrame cfg f c s)
          \<le> cur_sche_frame_id (CheckIncrementScheduleFrame cfg f c s))
   \<and> (window_bound cfg s \<and> cur_sche_frame_id s + 1 < cur_proc_frame_id s + kFrameWnd cfg \<longrightarrow>
        window_bound cfg (CheckIncrementScheduleFrame cfg f c s))
   \<and> (CheckFrameComplete cfg f s = Some (s', fin) \<longrightarrow>
        cur_sche_frame_id s' = cur_sche_frame_id s
        \<and> cur_proc_frame_id s' =
            (if frame_complete_cond cfg f s then cur_proc_frame_id s + 1 else cur_proc_frame_id s)
        \<and> (window_bound cfg s \<longrightarrow> cur_sche_frame_id s' < cur_proc_frame_id s' + kFrameWnd cfg)
        \<and> (window_bound cfg s \<and> cur_proc_frame_id s < cur_sche_frame_id s \<longrightarrow>
             window_bound cfg s'))"
proof -
  have a: "CheckFrameComplete cfg f s = Some (s', fin) \<Longrightarrow>
        cur_sche_frame_id s' = cur_sche_frame_id s
        \<and> cur_proc_frame_id s' =
            (if frame_complete_cond cfg f s then cur_proc_frame_id s + 1 else cur_proc_frame_id s)"
    using CheckFrameComplete_cursors by blast
  show ?thesis
    using a by (auto simp: CheckIncrementScheduleFrame_cursors window_bound_def)
qed

text \<open>
  In big-station mode the schedule cursor advances as soon as the packets of a frame have
  been handed to the FFT. When the packets of four frames arrive before any frame is
  retired, the schedule cursor is a whole window ahead of the processing cursor.
\<close>

theorem window_bound_counterexample:
  "window_bound cfg_big (Agora_new cfg_big)
   \<and> kFrameWnd cfg_big = 4
   \<and> cursors (handle_batch cfg_big trace_big (Agora_new cfg_big)) = Some (4, 0)"
  by (simp add: run_defs trace_big_def cfg_big_def cfg_ul_def cursors_def window_bound_def)

theorem window_bound_steps_witness:
  "window_bound cfg_ul state_deferred
   \<and> cur_sche_frame_id state_deferred + 1 < cur_proc_frame_id state_deferred + kFrameWnd cfg_ul
   \<and> window_bound cfg_ul (CheckIncrementScheduleFrame cfg_ul 0 kUplinkComplete state_deferred)
   \<and> cur_sche_frame_id (CheckIncrementScheduleFrame cfg_ul 0 kUplinkComplete state_deferred) = 1
   \<and> window_bound cfg_ul state_scheduled
   \<and> cur_proc_frame_id state_scheduled < cur_sche_frame_id state_scheduled
   \<and> (\<exists>s'. CheckFrameComplete cfg_ul 0 state_scheduled = Some (s', False)
           \<and> window_bound cfg_ul s' \<and> cur_proc_frame_id s' = 1 \<and> cur_sche_frame_id s' = 1)"
proof -
  have w: "window_bound cfg_ul state_deferred"
    "cur_sche_frame_id state_deferred + 1 < cur_proc_frame_id state_deferred + kFrameWnd cfg_ul"
    "schedule_process_flags state_deferred + kUplinkComplete = kProcessingComplete"
    "cur_sche_frame_id state_deferred = 0"
    by (simp_all add: run_defs state_deferred_def cfg_ul_def window_bound_def)
  have w2: "window_bound cfg_ul state_scheduled"
    "cur_proc_frame_id state_scheduled < cur_sche_frame_id state_scheduled"
    "cur_proc_frame_id state_scheduled = 0" "cur_sche_frame_id state_scheduled = 1"
    by (simp_all add: run_defs state_scheduled_def state_deferred_def cfg_ul_def window_bound_def)
  have "\<exists>s'. CheckFrameComplete cfg_ul 0 state_scheduled = Some (s', False)
             \<and> frame_complete_cond cfg_ul 0 state_scheduled"
    by (simp add: run_defs state_scheduled_def state_deferred_def cfg_ul_def)
  then obtain s' where r: "CheckFrameComplete cfg_ul 0 state_scheduled = Some (s', False)"
    and c: "frame_complete_cond cfg_ul 0 state_scheduled"
    by blast
  from window_bound_steps [of cfg_ul 0 kUplinkComplete state_deferred]
       window_bound_steps [of cfg_ul 0 kUplinkComplete state_scheduled s' False]
       w w2 r c
  show ?thesis by auto
qed

section \<open>The end of the run\<close>















section \<open>Handing packets to the FFT\<close>

lemma fft_created_tick_char:
  "\<exists>c cs fl. fft_created_tick cfg s =
     s\<lparr>fft_created_count := c, cur_sche_frame_id := cs, schedule_process_flags := fl\<rparr>"
proof -
  have "fft_created_tick cfg s =
     s\<lparr>fft_created_count := fft_created_count (fft_created_tick cfg s),
       cur_sche_frame_id := cur_sche_frame_id (fft_created_tick cfg s),
       schedule_process_flags := schedule_process_flags (fft_created_tick cfg s)\<rparr>"
    by (simp add: fft_created_tick_def CheckIncrementScheduleFrame_def Let_def)
  then show ?thesis by blast
qed

lemma fft_pop_tags_char:
  "fft_pop_tags cfg slot j s = Some (ts, s') \<Longrightarrow>
   j \<le> length (fft_queue_arr s slot) \<and> ts = take j (fft_queue_arr s slot)
   \<and> (\<exists>c cs fl. s' = s\<lparr>fft_queue_arr := (fft_queue_arr s)(slot := drop j (fft_queue_arr s slot)),
                        fft_created_count := c, cur_sche_frame_id := cs,
                        schedule_process_flags := fl\<rparr>)"
proof (induction j arbitrary: s ts)
  case 0
  then have e: "ts = []" "s' = s" by simp_all
  show ?case
  proof (intro conjI)
    show "0 \<le> length (fft_queue_arr s slot)" by simp
    show "ts = take 0 (fft_queue_arr s slot)" using e by simp
    show "\<exists>c cs fl. s' = s\<lparr>fft_queue_arr := (fft_queue_arr s)(slot := drop 0 (fft_queue_arr s slot)),
                        fft_created_count := c, cur_sche_frame_id := cs,
                        schedule_process_flags := fl\<rparr>"
      by (rule exI [of _ "fft_created_count s"], rule exI [of _ "cur_sche_frame_id s"],
          rule exI [of _ "schedule_process_flags s"]) (simp add: e)
  qed
next
  case (Suc j)
  from Suc.prems obtain t rest where q: "fft_queue_arr s slot = t # rest"
    by (cases "fft_queue_arr s slot") auto
  define s1 where "s1 = s\<lparr>fft_queue_arr := (fft_queue_arr s)(slot := rest)\<rparr>"
  from fft_created_tick_char [of cfg s1] obtain c1 cs1 fl1 where
    tick: "fft_created_tick cfg s1 =
             s1\<lparr>fft_created_count := c1, cur_sche_frame_id := cs1, schedule_process_flags := fl1\<rparr>"
    by blast
  define s2 where "s2 = fft_created_tick cfg s1"
  from Suc.prems q obtain ts' where
    rec: "fft_pop_tags cfg slot j s2 = Some (ts', s')" and ts: "ts = t # ts'"
    by (auto simp: s1_def s2_def split: option.splits)
  have q2: "fft_queue_arr s2 slot = rest"
    unfolding s2_def tick by (simp add: s1_def)
  from Suc.IH [OF rec] obtain c cs fl where
    j: "j \<le> length rest" and ts': "ts' = take j rest"
    and s': "s' = s2\<lparr>fft_queue_arr := (fft_queue_arr s2)(slot := drop j rest),
                        fft_created_count := c, cur_sche_frame_id := cs,
                        schedule_process_flags := fl\<rparr>"
    unfolding q2 by blast
  have eq: "s' = s\<lparr>fft_queue_arr := (fft_queue_arr s)(slot := drop (Suc j) (fft_queue_arr s slot)),
                        fft_created_count := c, cur_sche_frame_id := cs,
                        schedule_process_flags := fl\<rparr>"
    unfolding s' s2_def tick by (simp add: s1_def q)
  have "Suc j \<le> length (fft_queue_arr s slot)" using j q by simp
  moreover have "ts = take (Suc j) (fft_queue_arr s slot)" using ts ts' q by simp
  ultimately show ?case using eq by blast
qed

lemma fft_pop_tags_total:
  "j \<le> length (fft_queue_arr s slot) \<Longrightarrow> \<exists>ts s'. fft_pop_tags cfg slot j s = Some (ts, s')"
proof (induction j arbitrary: s)
  case 0
  show ?case by simp
next
  case (Suc j)
  from Suc.prems obtain t rest where q: "fft_queue_arr s slot = t # rest"
    by (cases "fft_queue_arr s slot") auto
  define s1 where "s1 = s\<lparr>fft_queue_arr := (fft_queue_arr s)(slot := rest)\<rparr>"
  from fft_created_tick_char [of cfg s1] obtain c1 cs1 fl1 where
    tick: "fft_created_tick cfg s1 =
             s1\<lparr>fft_created_count := c1, cur_sche_frame_id := cs1, schedule_process_flags := fl1\<rparr>"
    by blast
  have "fft_queue_arr (fft_created_tick cfg s1) slot = rest"
    unfolding tick by (simp add: s1_def)
  then have "j \<le> length (fft_queue_arr (fft_created_tick cfg s1) slot)"
    using Suc.prems q by simp
  from Suc.IH [OF this] show ?case
    by (auto simp: q s1_def)
qed

lemma fft_tasks_Suc:
  "fft_tasks qid B (Suc i) q = (kFFT, qid, take B q) # fft_tasks qid B i (drop B q)"
proof -
  have "[0..<Suc i] = 0 # map Suc [0..<i]"
    by (simp add: upt_conv_Cons map_Suc_upt del: upt_Suc)
  then show ?thesis
    by (simp add: fft_tasks_def comp_def add.commute del: upt_Suc)
qed

lemma fft_blocks_char:
  "fft_blocks cfg slot qid i s = Some s' \<Longrightarrow>
   i * FftBlockSize cfg \<le> length (fft_queue_arr s slot)
   \<and> fft_effect slot qid (FftBlockSize cfg) i s s'"
proof (induction i arbitrary: s)
  case 0
  then have e: "s' = s" by simp
  have "fft_effect slot qid (FftBlockSize cfg) 0 s s'"
    unfolding fft_effect_def fft_tasks_def
    by (rule exI [of _ "fft_created_count s"], rule exI [of _ "cur_sche_frame_id s"],
        rule exI [of _ "schedule_process_flags s"]) (simp add: e)
  then show ?case by simp
next
  case (Suc i)
  let ?B = "FftBlockSize cfg"
  let ?q = "fft_queue_arr s slot"
  from Suc.prems obtain ts s1 where
    pop: "fft_pop_tags cfg slot ?B s = Some (ts, s1)"
    and rec: "fft_blocks cfg slot qid i (EnqueueEventTaskQueue kFFT qid ts s1) = Some s'"
    by (auto split: option.splits)
  from fft_pop_tags_char [OF pop] obtain c1 cs1 fl1 where
    B: "?B \<le> length ?q" and ts: "ts = take ?B ?q"
    and s1: "s1 = s\<lparr>fft_queue_arr := (fft_queue_arr s)(slot := drop ?B ?q),
                        fft_created_count := c1, cur_sche_frame_id := cs1,
                        schedule_process_flags := fl1\<rparr>"
    by blast
  define s2 where "s2 = EnqueueEventTaskQueue kFFT qid ts s1"
  have f2: "fft_queue_arr s2 slot = drop ?B ?q" "task_queue s2 = task_queue s @ [(kFFT, qid, ts)]"
    by (simp_all add: s2_def EnqueueEventTaskQueue_def s1)
  from Suc.IH [OF rec [folded s2_def]] obtain c cs fl where
    len: "i * ?B \<le> length (drop ?B ?q)"
    and s': "s' = s2\<lparr>fft_queue_arr := (fft_queue_arr s2)(slot := drop (i * ?B) (drop ?B ?q)),
                        fft_created_count := c, cur_sche_frame_id := cs,
                        schedule_process_flags := fl,
                        task_queue := task_queue s2 @ fft_tasks qid ?B i (drop ?B ?q)\<rparr>"
    unfolding fft_effect_def f2 by blast
  have "s' = s\<lparr>fft_queue_arr := (fft_queue_arr s)(slot := drop (Suc i * ?B) ?q),
                        fft_created_count := c, cur_sche_frame_id := cs,
                        schedule_process_flags := fl,
                        task_queue := task_queue s @ fft_tasks qid ?B (Suc i) ?q\<rparr>"
    unfolding s' f2 fft_tasks_Suc
    by (simp add: s2_def EnqueueEventTaskQueue_def s1 ts add.commute)
  moreover have "Suc i * ?B \<le> length ?q" using len B by simp
  ultimately show ?case unfolding fft_effect_def by blast
qed

lemma fft_blocks_total:
  "i * FftBlockSize cfg \<le> length (fft_queue_arr s slot) \<Longrightarrow>
   \<exists>s'. fft_blocks cfg slot qid i s = Some s'"
proof (induction i arbitrary: s)
  case 0
  show ?case by simp
next
  case (Suc i)
  let ?B = "FftBlockSize cfg"
  have B: "?B \<le> length (fft_queue_arr s slot)" using Suc.prems by simp
  from fft_pop_tags_total [OF this] obtain ts s1 where
    pop: "fft_pop_tags cfg slot ?B s = Some (ts, s1)" by blast
  from fft_pop_tags_char [OF pop] obtain c1 cs1 fl1 where
    s1: "s1 = s\<lparr>fft_queue_arr := (fft_queue_arr s)(slot := drop ?B (fft_queue_arr s slot)),
                        fft_created_count := c1, cur_sche_frame_id := cs1,
                        schedule_process_flags := fl1\<rparr>"
    by blast
  have "i * ?B \<le> length (fft_queue_arr (EnqueueEventTaskQueue kFFT qid ts s1) slot)"
    using Suc.prems by (simp add: EnqueueEventTaskQueue_def s1)
  from Suc.IH [OF this] show ?case using pop by simp
qed

text \<open>The number of blocks \<open>TryScheduleFft\<close> hands over.\<close>

lemma TryScheduleFft_char:
  assumes "TryScheduleFft cfg s = Some s'"
  shows "fft_effect (cur_sche_frame_id s mod kFrameWnd cfg) (cur_sche_frame_id s mod 2)
           (FftBlockSize cfg)
           (length (fft_queue_arr s (cur_sche_frame_id s mod kFrameWnd cfg)) div FftBlockSize cfg)
           s s'"
proof -
  let ?slot = "cur_sche_frame_id s mod kFrameWnd cfg"
  let ?q = "fft_queue_arr s ?slot"
  let ?B = "FftBlockSize cfg"
  show ?thesis
  proof (cases "?B \<le> length ?q")
    case True
    with assms have "fft_blocks cfg ?slot (cur_sche_frame_id s mod 2) (length ?q div ?B) s = Some s'"
      by (auto simp: TryScheduleFft_def Let_def split: if_splits)
    from fft_blocks_char [OF this] show ?thesis by simp
  next
    case False
    with assms have s': "s' = s" by (simp add: TryScheduleFft_def Let_def)
    from False have "length ?q div ?B = 0" by simp
    moreover have "fft_blocks cfg ?slot (cur_sche_frame_id s mod 2) 0 s = Some s" by simp
    ultimately show ?thesis using fft_blocks_char [of cfg ?slot "cur_sche_frame_id s mod 2" 0 s s] s'
      by simp
  qed
qed

lemma TryScheduleFft_total:
  assumes "0 < FftBlockSize cfg"
  shows "\<exists>s'. TryScheduleFft cfg s = Some s'"
proof -
  let ?slot = "cur_sche_frame_id s mod kFrameWnd cfg"
  let ?q = "fft_queue_arr s ?slot"
  let ?B = "FftBlockSize cfg"
  have "(length ?q div ?B) * ?B \<le> length ?q" by simp
  from fft_blocks_total [OF this] show ?thesis
    using assms by (simp add: TryScheduleFft_def Let_def)
qed

section \<open>Batching of antennas\<close>

lemma block_events_tags:
  "concat (map task_tags (block_events ty qid r n base k))
     = map (\<lambda>j. base\<lparr>tag_inner_id := tag_inner_id base + j\<rparr>)
           [0..<(if k = 0 then 0 else if r > 0 then (k - 1) * n + r else k * n)]"
proof (induction k arbitrary: base)
  case 0
  show ?case by simp
next
  case (Suc k)
  show ?case
  proof (cases "k = 0")
    case True
    then show ?thesis by (simp add: task_tags_def Let_def)
  next
    case False
    define base' where "base' = base\<lparr>tag_inner_id := tag_inner_id base + n\<rparr>"
    define rest where "rest = (if r > 0 then (k - 1) * n + r else k * n)"
    have eq: "block_events ty qid r n base (Suc k)
            = (ty, qid, map (\<lambda>j. base\<lparr>tag_inner_id := tag_inner_id base + j\<rparr>) [0..<n])
              # block_events ty qid r n base' k"
      using False by (simp add: base'_def Let_def)
    have ih: "concat (map task_tags (block_events ty qid r n base' k))
       = map (\<lambda>j. base'\<lparr>tag_inner_id := tag_inner_id base' + j\<rparr>) [0..<rest]"
      using Suc.IH [of base'] False by (simp add: rest_def)
    have shift: "map (\<lambda>j. base'\<lparr>tag_inner_id := tag_inner_id base' + j\<rparr>) [0..<rest]
       = map (\<lambda>j. base\<lparr>tag_inner_id := tag_inner_id base + j\<rparr>) [n..<n + rest]"
      by (rule nth_equalityI) (simp_all add: base'_def add.assoc)
    have tot: "(if Suc k = 0 then 0 else if r > 0 then (Suc k - 1) * n + r else Suc k * n) = n + rest"
      using False by (cases k) (simp_all add: rest_def)
    have split: "[0..<n + rest] = [0..<n] @ [n..<n + rest]"
      using upt_add_eq_append [of 0 n rest] by simp
    have "task_tags (ty, qid, map (\<lambda>j. base\<lparr>tag_inner_id := tag_inner_id base + j\<rparr>) [0..<n])
            = map (\<lambda>j. base\<lparr>tag_inner_id := tag_inner_id base + j\<rparr>) [0..<n]"
      by (simp add: task_tags_def)
    then show ?thesis
      unfolding eq tot split using ih [unfolded shift] by simp
  qed
qed

lemma block_events_sizes:
  "map (\<lambda>tk. length (task_tags tk)) (block_events ty qid r n base k)
     = (if k = 0 then [] else replicate (k - 1) n @ [if r > 0 then r else n])"
proof (induction k arbitrary: base)
  case 0
  show ?case by simp
next
  case (Suc k)
  show ?case
  proof (cases "k = 0")
    case True
    then show ?thesis by (simp add: task_tags_def Let_def)
  next
    case False
    then obtain k' where k': "k = Suc k'" by (cases k) auto
    have eq: "block_events ty qid r n base (Suc k)
            = (ty, qid, map (\<lambda>j. base\<lparr>tag_inner_id := tag_inner_id base + j\<rparr>) [0..<n])
              # block_events ty qid r n (base\<lparr>tag_inner_id := tag_inner_id base + n\<rparr>) k"
      using False by (simp add: Let_def)
    show ?thesis
      unfolding eq using Suc.IH [of "base\<lparr>tag_inner_id := tag_inner_id base + n\<rparr>"] False
      by (simp add: task_tags_def k')
  qed
qed

lemma block_events_type:
  "list_all (\<lambda>tk. task_type tk = ty \<and> task_qid tk = qid) (block_events ty qid r n base k)"
  by (induction k arbitrary: n base) (simp_all add: task_type_def task_qid_def Let_def)

lemma num_blocks_total:
  assumes "0 < B"
  shows "(if num_blocks_of A B = 0 then 0
          else if A mod B > 0 then (num_blocks_of A B - 1) * B + A mod B
          else num_blocks_of A B * B) = A"
  using assms by (auto simp: num_blocks_of_def)

lemma num_blocks_sizes:
  assumes "0 < B"
  shows "(if num_blocks_of A B = 0 then []
          else replicate (num_blocks_of A B - 1) B @ [if A mod B > 0 then A mod B else B])
         = replicate (A div B) B @ (if A mod B > 0 then [A mod B] else [])"
proof (cases "A mod B > 0")
  case True
  then show ?thesis by (simp add: num_blocks_of_def)
next
  case False
  then have n: "num_blocks_of A B = A div B" by (simp add: num_blocks_of_def)
  show ?thesis
  proof (cases "A div B")
    case 0
    then show ?thesis using False n by simp
  next
    case (Suc m)
    then show ?thesis using False n by (simp add: replicate_append_same)
  qed
qed

lemma ScheduleAntennas_events_batches:
  assumes "0 < FftBlockSize cfg"
  shows "map (\<lambda>tk. length (task_tags tk)) (ScheduleAntennas_events cfg ty f sy)
           = replicate (BsAntNum cfg div FftBlockSize cfg) (FftBlockSize cfg)
             @ (if BsAntNum cfg mod FftBlockSize cfg > 0 then [BsAntNum cfg mod FftBlockSize cfg]
                else [])"
    and "concat (map task_tags (ScheduleAntennas_events cfg ty f sy))
           = map (\<lambda>a. \<lparr>tag_frame_id = f, tag_symbol_id = sy, tag_inner_id = a\<rparr>) [0..<BsAntNum cfg]"
    and "list_all (\<lambda>tk. task_type tk = ty \<and> task_qid tk = f mod 2)
           (ScheduleAntennas_events cfg ty f sy)"
proof -
  show "map (\<lambda>tk. length (task_tags tk)) (ScheduleAntennas_events cfg ty f sy)
           = replicate (BsAntNum cfg div FftBlockSize cfg) (FftBlockSize cfg)
             @ (if BsAntNum cfg mod FftBlockSize cfg > 0 then [BsAntNum cfg mod FftBlockSize cfg]
                else [])"
    unfolding ScheduleAntennas_events_def block_events_sizes
    by (rule num_blocks_sizes [OF assms])
  show "concat (map task_tags (ScheduleAntennas_events cfg ty f sy))
           = map (\<lambda>a. \<lparr>tag_frame_id = f, tag_symbol_id = sy, tag_inner_id = a\<rparr>) [0..<BsAntNum cfg]"
    unfolding ScheduleAntennas_events_def block_events_tags num_blocks_total [OF assms]
    by simp
  show "list_all (\<lambda>tk. task_type tk = ty \<and> task_qid tk = f mod 2)
           (ScheduleAntennas_events cfg ty f sy)"
    unfolding ScheduleAntennas_events_def using block_events_type [of ty "f mod 2"] by simp
qed

lemma fft_tasks_props:
  assumes "i * B \<le> length q"
  shows "length (fft_tasks qid B i q) = i"
    and "list_all (\<lambda>tk. task_type tk = kFFT \<and> task_qid tk = qid \<and> length (task_tags tk) = B)
           (fft_tasks qid B i q)"
    and "concat (map task_tags (fft_tasks qid B i q)) = take (i * B) q"
proof -
  show "length (fft_tasks qid B i q) = i" by (simp add: fft_tasks_def)
  show "list_all (\<lambda>tk. task_type tk = kFFT \<and> task_qid tk = qid \<and> length (task_tags tk) = B)
           (fft_tasks qid B i q)"
  proof -
    have "\<And>k. k < i \<Longrightarrow> B \<le> length q - k * B"
    proof -
      fix k assume "k < i"
      then have "Suc k * B \<le> i * B" by (intro mult_le_mono1) simp
      then show "B \<le> length q - k * B" using assms by simp
    qed
    then show ?thesis
      by (auto simp: fft_tasks_def list_all_iff task_type_def task_qid_def task_tags_def)
  qed
  show "concat (map task_tags (fft_tasks qid B i q)) = take (i * B) q"
    using assms
  proof (induction i arbitrary: q)
    case 0
    show ?case by (simp add: fft_tasks_def)
  next
    case (Suc i)
    have "i * B \<le> length (drop B q)" using Suc.prems by simp
    from Suc.IH [OF this] show ?case
      unfolding fft_tasks_Suc
      by (simp add: task_tags_def take_add add.commute)
  qed
qed

text \<open>
  Claim C4, as the code has it. \<open>ScheduleAntennas\<close> (the batching used for IFFT) emits
  \<open>A div B\<close> events of exactly \<open>B\<close> tags and, when \<open>B\<close> does not divide \<open>A\<close>, one last
  event of \<open>A mod B\<close> tags; the tags of all events, in order, are the antennas \<open>0\<close> to
  \<open>A - 1\<close> of the frame and symbol in ascending order, so their number is \<open>A\<close>.
  \<open>TryScheduleFft\<close> (the batching of FFT) returns when the block size is positive and
  emits only whole blocks: with \<open>n\<close> packets waiting in the schedule frame's queue it
  appends \<open>n div B\<close> FFT events of exactly \<open>B\<close> tags each, in arrival order, and leaves
  the last \<open>n mod B\<close> packets in the queue.
\<close>

theorem antenna_batching:
  assumes "0 < FftBlockSize cfg"
  shows "map (\<lambda>tk. length (task_tags tk)) (ScheduleAntennas_events cfg ty frame_id symbol_id)
           = replicate (BsAntNum cfg div FftBlockSize cfg) (FftBlockSize cfg)
             @ (if BsAntNum cfg mod FftBlockSize cfg > 0 then [BsAntNum cfg mod FftBlockSize cfg]
                else [])
         \<and> concat (map task_tags (ScheduleAntennas_events cfg ty frame_id symbol_id))
           = map (\<lambda>a. \<lparr>tag_frame_id = frame_id, tag_symbol_id = symbol_id, tag_inner_id = a\<rparr>)
                 [0..<BsAntNum cfg]
         \<and> list_all (\<lambda>tk. task_type tk = ty) (ScheduleAntennas_events cfg ty frame_id symbol_id)
         \<and> ScheduleAntennas cfg ty frame_id symbol_id s
             = Some (s\<lparr>task_queue := task_queue s
                                        @ ScheduleAntennas_events cfg ty frame_id symbol_id\<rparr>)
         \<and> (\<exists>s' new. TryScheduleFft cfg s = Some s'
               \<and> task_queue s' = task_queue s @ new
               \<and> length new
                   = length (fft_queue_arr s (cur_sche_frame_id s mod kFrameWnd cfg))
                     div FftBlockSize cfg
               \<and> list_all (\<lambda>tk. task_type tk = kFFT \<and> length (task_tags tk) = FftBlockSize cfg) new
               \<and> concat (map task_tags new) @ fft_queue_arr s' (cur_sche_frame_id s mod kFrameWnd cfg)
                   = fft_queue_arr s (cur_sche_frame_id s mod kFrameWnd cfg)
               \<and> length (fft_queue_arr s' (cur_sche_frame_id s mod kFrameWnd cfg))
                   = length (fft_queue_arr s (cur_sche_frame_id s mod kFrameWnd cfg))
                     mod FftBlockSize cfg)"
proof -
  let ?slot = "cur_sche_frame_id s mod kFrameWnd cfg"
  let ?q = "fft_queue_arr s ?slot"
  let ?B = "FftBlockSize cfg"
  let ?n = "length ?q div ?B"
  from TryScheduleFft_total [OF assms] obtain s' where r: "TryScheduleFft cfg s = Some s'"
    by blast
  from TryScheduleFft_char [OF r] obtain c cs fl where
    s': "s' = s\<lparr>fft_queue_arr := (fft_queue_arr s)(?slot := drop (?n * ?B) ?q),
                        fft_created_count := c, cur_sche_frame_id := cs,
                        schedule_process_flags := fl,
                        task_queue := task_queue s @ fft_tasks (cur_sche_frame_id s mod 2) ?B ?n ?q\<rparr>"
    unfolding fft_effect_def by blast
  have le: "?n * ?B \<le> length ?q" by simp
  let ?new = "fft_tasks (cur_sche_frame_id s mod 2) ?B ?n ?q"
  have q': "fft_queue_arr s' ?slot = drop (?n * ?B) ?q" by (simp add: s')
  have "task_queue s' = task_queue s @ ?new" by (simp add: s')
  moreover have "length ?new = ?n" by (rule fft_tasks_props(1) [OF le])
  moreover have "list_all (\<lambda>tk. task_type tk = kFFT \<and> length (task_tags tk) = ?B) ?new"
    using fft_tasks_props(2) [OF le, of "cur_sche_frame_id s mod 2"] by (simp add: list_all_iff)
  moreover have "concat (map task_tags ?new) @ fft_queue_arr s' ?slot = ?q"
    unfolding q' fft_tasks_props(3) [OF le] by simp
  moreover have "length (fft_queue_arr s' ?slot) = length ?q mod ?B"
    unfolding q' by (simp add: modulo_nat_def)
  ultimately have fft: "\<exists>s' new. TryScheduleFft cfg s = Some s'
               \<and> task_queue s' = task_queue s @ new
               \<and> length new = ?n
               \<and> list_all (\<lambda>tk. task_type tk = kFFT \<and> length (task_tags tk) = ?B) new
               \<and> concat (map task_tags new) @ fft_queue_arr s' ?slot = ?q
               \<and> length (fft_queue_arr s' ?slot) = length ?q mod ?B"
    using r by blast
  have ty: "list_all (\<lambda>tk. task_type tk = ty) (ScheduleAntennas_events cfg ty frame_id symbol_id)"
    using ScheduleAntennas_events_batches(3) [OF assms, of ty frame_id symbol_id]
    by (simp add: list_all_iff)
  have sa: "ScheduleAntennas cfg ty frame_id symbol_id s
             = Some (s\<lparr>task_queue := task_queue s
                                        @ ScheduleAntennas_events cfg ty frame_id symbol_id\<rparr>)"
    using assms by (simp add: ScheduleAntennas_def enqueue_tasks_def)
  show ?thesis
    using ScheduleAntennas_events_batches(1,2) [OF assms, of ty frame_id symbol_id] ty sa fft
    by blast
qed

text \<open>
  With three antennas and a block size of two, the six packets of frame 0 give three FFT
  events of two tags each: no event carries the remainder of one tag, and the second event
  mixes antenna 2 of symbol 0 with antenna 0 of symbol 1.
\<close>

theorem fft_batching_counterexample:
  "BsAntNum cfg_odd = 3 \<and> FftBlockSize cfg_odd = 2
   \<and> tasks_view (handle_batch cfg_odd (take 3 trace_odd) (Agora_new cfg_odd))
      = Some [(kFFT, [mk_tag 0 0 0, mk_tag 0 0 1])]
   \<and> tasks_view (handle_batch cfg_odd trace_odd (Agora_new cfg_odd))
      = Some [(kFFT, [mk_tag 0 0 0, mk_tag 0 0 1]), (kFFT, [mk_tag 0 0 2, mk_tag 0 1 0]),
              (kFFT, [mk_tag 0 1 1, mk_tag 0 1 2])]"
  by (simp add: run_defs trace_odd_def cfg_odd_def cfg_ul_def tasks_view_def task_type_def
      task_tags_def)

theorem antenna_batching_witness:
  "0 < FftBlockSize cfg_odd
   \<and> map (\<lambda>tk. length (task_tags tk)) (ScheduleAntennas_events cfg_odd kIFFT 0 2) = [2, 1]
   \<and> concat (map task_tags (ScheduleAntennas_events cfg_odd kIFFT 0 2))
       = [mk_tag 0 2 0, mk_tag 0 2 1, mk_tag 0 2 2]"
proof -
  have b: "0 < FftBlockSize cfg_odd" "BsAntNum cfg_odd = 3" "FftBlockSize cfg_odd = 2"
    by (simp_all add: cfg_odd_def cfg_ul_def)
  have u: "[0..<3] = [0, 1, 2]" by (simp add: upt_rec)
  from antenna_batching [OF b(1), of kIFFT 0 2 "Agora_new cfg_odd"] b
  show ?thesis by (simp add: mk_tag_def u)
qed

section \<open>Packets and the frame window\<close>









section \<open>Decoding after demodulation\<close>


















end
